theory Spec2Isabelle
  imports Complex_Main "HOL-Library.Log_Nat"
begin

section \<open>MapCache: host configuration, lockers, multitier cache and riak backend\<close>

text \<open>
  A shallow embedding of three source files of MapCache: the Apache module
  (\<^verbatim>\<open>mod_mapcache.c\<close>, which in this tree also carries the multitier cache backend),
  the locking support file and the riak cache backend (\<^verbatim>\<open>cache_riak2.c\<close>).
  C structs are records, function pointers are record fields holding functions, the
  request context's error slot and log are threaded explicitly, and every call that
  leaves these files (APR, Apache, riack, the rest of the MapCache library) is a
  parameter.
\<close>

subsection \<open>Per-server configuration of the Apache module\<close>

text \<open>
  \<^verbatim>\<open>struct mapcache_alias_entry\<close> and \<^verbatim>\<open>struct mapcache_server_cfg\<close>. The C fields are
  \<^verbatim>\<open>int\<close>; an is-set field is tested for being non-zero.
\<close>

record mapcache_alias_entry =
  endpoint :: string
  configfile :: string

record mapcache_server_cfg =
  aliases :: "mapcache_alias_entry list"
  cp_sharing_is_set :: int
  cp_sharing :: int
  cp_min_is_set :: int
  cp_min :: int
  cp_smax_is_set :: int
  cp_smax :: int
  cp_hmax_is_set :: int
  cp_hmax :: int
  cp_ttl_is_set :: int
  cp_ttl :: int

text \<open>What \<^verbatim>\<open>apr_pcalloc(p, sizeof(mapcache_server_cfg))\<close> returns: every field zero.\<close>

definition pcalloc_server_cfg :: mapcache_server_cfg where
  "pcalloc_server_cfg =
     \<lparr>aliases = [], cp_sharing_is_set = 0, cp_sharing = 0, cp_min_is_set = 0, cp_min = 0,
      cp_smax_is_set = 0, cp_smax = 0, cp_hmax_is_set = 0, cp_hmax = 0,
      cp_ttl_is_set = 0, cp_ttl = 0\<rparr>"

text \<open>The C operator \<^verbatim>\<open>a || b\<close> on two \<^verbatim>\<open>int\<close>s: 1 when either is non-zero, else 0.\<close>

definition c_or :: "int \<Rightarrow> int \<Rightarrow> int" where
  "c_or a b = (if a \<noteq> 0 \<or> b \<noteq> 0 then 1 else 0)"

definition mod_mapcache_create_server_conf :: mapcache_server_cfg where
  "mod_mapcache_create_server_conf =
     (let cfg = pcalloc_server_cfg;
          cfg = cfg\<lparr>aliases := []\<rparr>;
          cfg = cfg\<lparr>cp_sharing := 0\<rparr>;
          cfg = cfg\<lparr>cp_sharing_is_set := 0\<rparr>;
          cfg = cfg\<lparr>cp_min := 1\<rparr>;
          cfg = cfg\<lparr>cp_min_is_set := 0\<rparr>;
          cfg = cfg\<lparr>cp_smax := 5\<rparr>;
          cfg = cfg\<lparr>cp_smax_is_set := 0\<rparr>;
          cfg = cfg\<lparr>cp_hmax := 200\<rparr>;
          cfg = cfg\<lparr>cp_hmax_is_set := 0\<rparr>;
          cfg = cfg\<lparr>cp_ttl := 60\<rparr>;
          cfg = cfg\<lparr>cp_ttl_is_set := 0\<rparr>
      in cfg)"

text \<open>
  \<^verbatim>\<open>mod_mapcache_merge_server_conf\<close>. The result \<^verbatim>\<open>cfg\<close> is freshly zeroed and then
  assigned field by field, in the order of the source; the right-hand sides read
  \<^verbatim>\<open>vhost\<close> and \<^verbatim>\<open>cfg\<close> itself. \<^verbatim>\<open>base\<close> is read for its aliases only.
\<close>

definition mod_mapcache_merge_server_conf ::
  "mapcache_server_cfg \<Rightarrow> mapcache_server_cfg \<Rightarrow> mapcache_server_cfg" where
  "mod_mapcache_merge_server_conf base vhost =
     (let cfg = pcalloc_server_cfg;
          cfg = cfg\<lparr>aliases := aliases vhost @ aliases base\<rparr>;
          cfg = cfg\<lparr>cp_min := (if cp_min_is_set vhost \<noteq> 0 then cp_min vhost else cp_min cfg)\<rparr>;
          cfg = cfg\<lparr>cp_smax := (if cp_smax_is_set vhost \<noteq> 0 then cp_smax vhost else cp_smax cfg)\<rparr>;
          cfg = cfg\<lparr>cp_hmax := (if cp_hmax_is_set vhost \<noteq> 0 then cp_hmax vhost else cp_hmax cfg)\<rparr>;
          cfg = cfg\<lparr>cp_ttl := (if cp_ttl_is_set vhost \<noteq> 0 then cp_ttl vhost else cp_ttl cfg)\<rparr>;
          cfg = cfg\<lparr>cp_sharing :=
                  (if cp_sharing_is_set vhost \<noteq> 0 then cp_sharing vhost else cp_sharing cfg)\<rparr>;
          cfg = cfg\<lparr>cp_min_is_set := c_or (cp_min_is_set vhost) (cp_min_is_set cfg)\<rparr>;
          cfg = cfg\<lparr>cp_smax_is_set := c_or (cp_smax_is_set vhost) (cp_smax_is_set cfg)\<rparr>;
          cfg = cfg\<lparr>cp_hmax_is_set := c_or (cp_hmax_is_set vhost) (cp_hmax_is_set cfg)\<rparr>;
          cfg = cfg\<lparr>cp_ttl_is_set := c_or (cp_ttl_is_set vhost) (cp_ttl_is_set cfg)\<rparr>;
          cfg = cfg\<lparr>cp_sharing_is_set :=
                  c_or (cp_sharing_is_set vhost) (cp_sharing_is_set cfg)\<rparr>
      in cfg)"

text \<open>The directive handlers \<^verbatim>\<open>mapcache_set_cp_min\<close> etc., with \<^verbatim>\<open>atoi\<close> already applied.\<close>

definition mapcache_set_cp_min :: "int \<Rightarrow> mapcache_server_cfg \<Rightarrow> mapcache_server_cfg" where
  "mapcache_set_cp_min n sconfig = sconfig\<lparr>cp_min_is_set := 1, cp_min := n\<rparr>"

definition mapcache_set_cp_smax :: "int \<Rightarrow> mapcache_server_cfg \<Rightarrow> mapcache_server_cfg" where
  "mapcache_set_cp_smax n sconfig = sconfig\<lparr>cp_smax_is_set := 1, cp_smax := n\<rparr>"

subsection \<open>C doubles\<close>

text \<open>
  The type \<^verbatim>\<open>double\<close>, taken as IEEE 754 binary64 with every operation rounded to the
  nearest double, ties to the even significand, and evaluated without excess precision
  (\<^verbatim>\<open>FLT_EVAL_METHOD\<close> 0, as on x86-64 and AArch64). A finite double is \<open>Finite m e\<close>, the number \<open>m * 2 ^ e\<close> with an integer
  significand \<open>\<bar>m\<bar> < 2 ^ 53\<close> and an exponent \<open>- 1074 \<le> e \<le> 971\<close>, where \<open>2 ^ 52 \<le> \<bar>m\<bar>\<close> unless
  \<open>e = - 1074\<close> (the subnormal numbers and zero). The sign of a zero is not kept: the
  operations below do not tell the two zeros apart.
\<close>

datatype c_double = Finite int int | PlusInfinity | MinusInfinity | NaN

text \<open>
  The quotient \<open>a / b\<close> of a natural number and a positive one, rounded to the nearest
  integer, a tie to the even one; and the fraction \<open>a / (b * 2 ^ e)\<close> as a numerator and a
  denominator.
\<close>

definition round_half_even :: "int \<Rightarrow> int \<Rightarrow> int" where
  "round_half_even a b =
     (let n = a div b; r = a mod b
      in if b < 2 * r \<or> (2 * r = b \<and> odd n) then n + 1 else n)"

definition scale2 :: "int \<Rightarrow> int \<Rightarrow> int \<Rightarrow> int \<times> int" where
  "scale2 a b e = (if 0 \<le> e then (a, b * 2 ^ nat e) else (a * 2 ^ nat (- e), b))"

text \<open>
  The exponent of the double nearest to \<open>a / b\<close>, for positive \<open>a\<close> and \<open>b\<close>: the \<open>e\<close> with
  \<open>2 ^ 52 \<le> a / (b * 2 ^ e) < 2 ^ 53\<close>, which is one of two candidates that the lengths of
  \<open>a\<close> and \<open>b\<close> in bits leave, but not less than \<open>- 1074\<close>.
\<close>

definition double_exponent :: "int \<Rightarrow> int \<Rightarrow> int" where
  "double_exponent a b =
     (let e = bitlen a - bitlen b - 53;
          (n, d) = scale2 a b e;
          e = (if d * 2 ^ 53 \<le> n then e + 1 else e)
      in max e (- 1074))"

text \<open>
  \<open>double_round p q\<close> is the double nearest to the fraction \<open>p / q\<close>, for \<open>q > 0\<close>: the
  significand is rounded at the exponent of the fraction; when it rounds up to \<open>2 ^ 53\<close>
  the exponent goes up by one; a result beyond the largest exponent is an infinity.
\<close>

definition double_round :: "int \<Rightarrow> int \<Rightarrow> c_double" where
  "double_round p q =
     (if p = 0 then Finite 0 (- 1074)
      else
        (let e = double_exponent \<bar>p\<bar> q;
             (n, d) = scale2 \<bar>p\<bar> q e;
             m = round_half_even n d;
             (m, e) = (if m = 2 ^ 53 then (2 ^ 52, e + 1) else (m, e))
         in if 971 < e then (if p < 0 then MinusInfinity else PlusInfinity)
            else Finite (sgn p * m) e))"

text \<open>
  The conversion of an integer to \<^verbatim>\<open>double\<close>, which is exact up to \<open>2 ^ 53\<close>; the product of two
  doubles, which is the rounded exact product; and the comparison \<^verbatim>\<open><\<close>, which is false
  when an operand is not a number.
\<close>

definition double_of_int :: "int \<Rightarrow> c_double" where
  "double_of_int i = double_round i 1"

fun double_sgn :: "c_double \<Rightarrow> int" where
  "double_sgn (Finite m e) = sgn m"
| "double_sgn PlusInfinity = 1"
| "double_sgn MinusInfinity = - 1"
| "double_sgn NaN = 0"

definition double_mult :: "c_double \<Rightarrow> c_double \<Rightarrow> c_double" where
  "double_mult a b =
     (if a = NaN \<or> b = NaN then NaN
      else case (a, b) of
        (Finite m1 e1, Finite m2 e2) \<Rightarrow>
          (let (p, q) = scale2 (m1 * m2) 1 (- (e1 + e2)) in double_round p q)
      | _ \<Rightarrow>
          if double_sgn a * double_sgn b = 0 then NaN
          else if 0 < double_sgn a * double_sgn b then PlusInfinity
          else MinusInfinity)"

fun double_less :: "c_double \<Rightarrow> c_double \<Rightarrow> bool" where
  "double_less (Finite m1 e1) (Finite m2 e2) =
     (m1 * 2 ^ nat (e1 - min e1 e2) < m2 * 2 ^ nat (e2 - min e1 e2))"
| "double_less (Finite m e) PlusInfinity = True"
| "double_less MinusInfinity (Finite m e) = True"
| "double_less MinusInfinity PlusInfinity = True"
| "double_less a b = False"

text \<open>
  The conversion of a double to a signed 64-bit integer drops the fraction. C leaves it
  undefined when the double is not a number or its integral part does not fit: \<open>None\<close>.
\<close>

fun double_to_int64 :: "c_double \<Rightarrow> int option" where
  "double_to_int64 (Finite m e) =
     (let t = (if 0 \<le> e then m * 2 ^ nat e else sgn m * (\<bar>m\<bar> div 2 ^ nat (- e)))
      in if - (2 ^ 63) \<le> t \<and> t < 2 ^ 63 then Some t else None)"
| "double_to_int64 a = None"

subsection \<open>The request context: error slot and log\<close>

text \<open>
  \<^verbatim>\<open>mapcache.h\<close> is not among the source files. Its status macros are therefore a
  parameter of every function that returns or compares one: a record giving each macro
  its value.
\<close>

record mapcache_h =
  MAPCACHE_SUCCESS :: int
  MAPCACHE_FAILURE :: int
  MAPCACHE_TRUE :: int
  MAPCACHE_FALSE :: int
  MAPCACHE_CACHE_MISS :: int

datatype mapcache_log_level =
  MAPCACHE_DEBUG | MAPCACHE_INFO | MAPCACHE_NOTICE | MAPCACHE_WARN | MAPCACHE_ERROR
  | MAPCACHE_CRIT | MAPCACHE_ALERT | MAPCACHE_EMERG

text \<open>
  A logged line is kept as its level, its format string and its arguments, unformatted:
  \<^verbatim>\<open>%s\<close> arguments as strings, \<^verbatim>\<open>%d\<close> arguments as integers, \<^verbatim>\<open>%g\<close> arguments as doubles.
\<close>

datatype fmt_arg = ArgS string | ArgD int | ArgG c_double

type_synonym log_entry = "mapcache_log_level \<times> string \<times> fmt_arg list"

text \<open>
  The part of \<^verbatim>\<open>mapcache_context\<close> these files use: the current error (code and
  message), the log, and \<open>world\<close>, which stands for everything outside the process that
  a callback may read or change (files, servers, the clock).
\<close>

record 'w mapcache_context =
  ctx_error :: "(int \<times> string) option"
  ctx_log :: "log_entry list"
  world :: 'w

text \<open>
  Modelled from the spec: the error ledger of the context (\<^verbatim>\<open>context.c\<close> is not among the
  source files). Section 4.A: \<^verbatim>\<open>set_error\<close> sets a code and a message, \<^verbatim>\<open>has_error\<close> is a
  predicate, \<^verbatim>\<open>clear_errors\<close> resets the slot, \<^verbatim>\<open>pop_errors\<close> saves the current error away
  and leaves the slot empty for a speculative section, \<^verbatim>\<open>push_errors\<close> puts a saved error
  back; an error raised in between stays, its message after the restored one.
\<close>

definition GC_HAS_ERROR :: "'w mapcache_context \<Rightarrow> bool" where
  "GC_HAS_ERROR ctx = (ctx_error ctx \<noteq> None)"

definition set_error :: "int \<Rightarrow> string \<Rightarrow> 'w mapcache_context \<Rightarrow> 'w mapcache_context" where
  "set_error code msg ctx = ctx\<lparr>ctx_error := Some (code, msg)\<rparr>"

definition clear_errors :: "'w mapcache_context \<Rightarrow> 'w mapcache_context" where
  "clear_errors ctx = ctx\<lparr>ctx_error := None\<rparr>"

definition pop_errors ::
  "'w mapcache_context \<Rightarrow> (int \<times> string) option \<times> 'w mapcache_context" where
  "pop_errors ctx = (ctx_error ctx, ctx\<lparr>ctx_error := None\<rparr>)"

definition push_errors ::
  "(int \<times> string) option \<Rightarrow> 'w mapcache_context \<Rightarrow> 'w mapcache_context" where
  "push_errors saved ctx =
     (case saved of
        None \<Rightarrow> ctx
      | Some (code, msg) \<Rightarrow>
          (case ctx_error ctx of
             None \<Rightarrow> ctx\<lparr>ctx_error := Some (code, msg)\<rparr>
           | Some (code', msg') \<Rightarrow> ctx\<lparr>ctx_error := Some (code, msg @ [CHR 0x0A] @ msg')\<rparr>))"

definition ctx_log_line ::
  "mapcache_log_level \<Rightarrow> string \<Rightarrow> fmt_arg list \<Rightarrow> 'w mapcache_context \<Rightarrow> 'w mapcache_context" where
  "ctx_log_line level fmt args ctx = ctx\<lparr>ctx_log := ctx_log ctx @ [(level, fmt, args)]\<rparr>"

subsection \<open>Names of lock files and memcache lock keys\<close>

definition MAPCACHE_LOCKFILE_PREFIX :: string where
  "MAPCACHE_LOCKFILE_PREFIX = ''_gc_lock''"

text \<open>
  The loop \<^verbatim>\<open>while(*safeptr) { ... safeptr++; }\<close> of \<^verbatim>\<open>lock_filename_for_resource\<close> over the
  copy of the resource string. A string here is the characters of the C string before
  its terminating NUL.
\<close>

fun disk_saferes :: "string \<Rightarrow> string" where
  "disk_saferes [] = []"
| "disk_saferes (c # cs) =
     (if c = CHR '' '' \<or> c = CHR ''/'' \<or> c = CHR ''~'' \<or> c = CHR ''.''
      then CHR ''#'' else c) # disk_saferes cs"

definition lock_filename_for_resource :: "string \<Rightarrow> string \<Rightarrow> string" where
  "lock_filename_for_resource dir resource =
     dir @ ''/'' @ MAPCACHE_LOCKFILE_PREFIX @ disk_saferes resource @ ''.lck''"

text \<open>
  The same loop in \<^verbatim>\<open>memcache_key_for_resource\<close>, with the longer test. The C escapes are
  \<^verbatim>\<open>\r\<close> = 0x0D, \<^verbatim>\<open>\n\<close> = 0x0A, \<^verbatim>\<open>\t\<close> = 0x09, \<^verbatim>\<open>\f\<close> = 0x0C, \<^verbatim>\<open>\e\<close> = 0x1B, \<^verbatim>\<open>\a\<close> = 0x07 and
  \<^verbatim>\<open>\b\<close> = 0x08.
\<close>

fun memcache_saferes :: "string \<Rightarrow> string" where
  "memcache_saferes [] = []"
| "memcache_saferes (c # cs) =
     (if c = CHR '' '' \<or> c = CHR ''/'' \<or> c = CHR ''~'' \<or> c = CHR ''.''
         \<or> c = CHR 0x0D \<or> c = CHR 0x0A \<or> c = CHR 0x09 \<or> c = CHR 0x0C \<or> c = CHR 0x1B
         \<or> c = CHR 0x07 \<or> c = CHR 0x08
      then CHR ''#'' else c) # memcache_saferes cs"

text \<open>\<open>key_prefix\<close> is \<open>None\<close> for the C null pointer, which the code replaces by the empty string.\<close>

definition memcache_key_for_resource :: "string option \<Rightarrow> string \<Rightarrow> string" where
  "memcache_key_for_resource key_prefix resource =
     (case key_prefix of Some p \<Rightarrow> p | None \<Rightarrow> [])
       @ MAPCACHE_LOCKFILE_PREFIX @ memcache_saferes resource @ ''.lck''"

text \<open>The character set that the persisted-layout section of the spec lists.\<close>

definition unsafe_chars :: "char set" where
  "unsafe_chars = {CHR '' '', CHR ''/'', CHR ''~'', CHR ''.'', CHR 0x0D, CHR 0x0A, CHR 0x09,
                   CHR 0x0C, CHR 0x1B, CHR 0x07, CHR 0x08}"

subsection \<open>The proxy branch of the Apache request handler\<close>

text \<open>
  An APR table is an ordered list of key/value entries whose keys compare without regard
  to ASCII case. A value is \<open>None\<close> for the C null pointer. \<^verbatim>\<open>apr_table_get\<close> returns the
  value of the first entry with the key; \<^verbatim>\<open>apr_table_set\<close> overwrites the value of the first
  such entry and drops the later ones, or appends a new entry.
\<close>

type_synonym apr_table = "(string \<times> string option) list"

definition c_tolower :: "char \<Rightarrow> char" where
  "c_tolower c =
     (case map_of (zip ''ABCDEFGHIJKLMNOPQRSTUVWXYZ'' ''abcdefghijklmnopqrstuvwxyz'') c of
        Some l \<Rightarrow> l
      | None \<Rightarrow> c)"

definition strcaseeq :: "string \<Rightarrow> string \<Rightarrow> bool" where
  "strcaseeq a b = (map c_tolower a = map c_tolower b)"

fun apr_table_get :: "apr_table \<Rightarrow> string \<Rightarrow> string option" where
  "apr_table_get [] key = None"
| "apr_table_get ((k, v) # t) key = (if strcaseeq k key then v else apr_table_get t key)"

fun apr_table_set :: "apr_table \<Rightarrow> string \<Rightarrow> string option \<Rightarrow> apr_table" where
  "apr_table_set [] key val = [(key, val)]"
| "apr_table_set ((k, v) # t) key val =
     (if strcaseeq k key then (k, val) # filter (\<lambda>(k', v'). \<not> strcaseeq k' key) t
      else (k, v) # apr_table_set t key val)"

text \<open>
  The fields of Apache's \<^verbatim>\<open>request_rec\<close> that the handler reads on its way through the proxy
  branch: \<^verbatim>\<open>r->handler\<close> (\<open>None\<close> for the null pointer), the method, the inbound headers,
  \<^verbatim>\<open>r->content_type\<close> (here \<open>req_content_type\<close>), the client address of the connection (called
  \<^verbatim>\<open>remote_ip\<close> before Apache 2.4) and \<^verbatim>\<open>r->server->server_hostname\<close>.
\<close>

datatype http_method = M_GET | M_PUT | M_POST | M_DELETE | M_OPTIONS

record request_rec =
  handler :: "string option"
  method_number :: http_method
  headers_in :: apr_table
  req_content_type :: "string option"
  client_ip :: string
  server_hostname :: string

record mapcache_request_proxy =
  proxy_headers :: "apr_table option"
  post_buf :: "string option"
  post_len :: nat

text \<open>
  How the handler leaves a request on this path: it returns \<^verbatim>\<open>DECLINED\<close> or
  \<^verbatim>\<open>HTTP_METHOD_NOT_ALLOWED\<close>, it writes the response that
  \<^verbatim>\<open>mapcache_core_respond_to_error\<close> makes of the error in the context, or it calls
  \<^verbatim>\<open>mapcache_core_proxy_request\<close> with a proxy request.
\<close>

datatype handler_result =
  DECLINED
| HTTP_METHOD_NOT_ALLOWED
| Respond_to_error
| Core_proxy_request mapcache_request_proxy

text \<open>
  \<^verbatim>\<open>mod_mapcache_request_handler\<close> for a request that \<^verbatim>\<open>mapcache_service_dispatch_request\<close>
  dispatches without error as a \<^verbatim>\<open>MAPCACHE_REQUEST_PROXY\<close>: the two guards at the head of the
  handler, and the proxy branch up to the call of \<^verbatim>\<open>mapcache_core_proxy_request\<close>. The
  arguments \<open>req_proxy\<close> and \<open>global_ctx\<close> are the request and the context as the dispatch
  leaves them; the guards come before the context is made and return without it.
  \<^verbatim>\<open>read_post_body\<close> reads the body through Apache's input filters; its effect on the proxy
  request and on the context is the parameter \<open>read_post_body\<close>.
\<close>

definition mod_mapcache_request_handler_proxy ::
  "(request_rec \<Rightarrow> mapcache_request_proxy \<Rightarrow> 'w mapcache_context
      \<Rightarrow> mapcache_request_proxy \<times> 'w mapcache_context)
   \<Rightarrow> request_rec \<Rightarrow> mapcache_request_proxy \<Rightarrow> 'w mapcache_context
   \<Rightarrow> handler_result \<times> 'w mapcache_context" where
  "mod_mapcache_request_handler_proxy read_post_body r req_proxy global_ctx =
     (if handler r = None \<or> handler r \<noteq> Some ''mapcache'' then (DECLINED, global_ctx)
      else if method_number r \<noteq> M_GET \<and> method_number r \<noteq> M_POST then
        (HTTP_METHOD_NOT_ALLOWED, global_ctx)
      else if method_number r = M_POST then
        (let (req_proxy, global_ctx) = read_post_body r req_proxy global_ctx in
         if GC_HAS_ERROR global_ctx then (Respond_to_error, global_ctx)
         else
           (let hs = (case proxy_headers req_proxy of None \<Rightarrow> [] | Some h \<Rightarrow> h);
                hs = apr_table_set hs ''Content-Type'' (req_content_type r);
                hs = (case apr_table_get (headers_in r) ''X-Forwarded-For'' of
                        Some buf \<Rightarrow>
                          apr_table_set hs ''X-Forwarded-For'' (Some (buf @ '', '' @ client_ip r))
                      | None \<Rightarrow> apr_table_set hs ''X-Forwarded-For'' (Some (client_ip r)));
                hs = (case apr_table_get (headers_in r) ''Host'' of
                        Some buf \<Rightarrow>
                          (case apr_table_get (headers_in r) ''X-Forwarded-Host'' of
                             Some buf2 \<Rightarrow>
                               apr_table_set hs ''X-Forwarded-Host'' (Some (buf2 @ '', '' @ buf))
                           | None \<Rightarrow> apr_table_set hs ''X-Forwarded-Host'' (Some buf))
                      | None \<Rightarrow> hs);
                hs = (case apr_table_get (headers_in r) ''X-Forwarded-Server'' of
                        Some buf \<Rightarrow>
                          apr_table_set hs ''X-Forwarded-Server''
                            (Some (buf @ '', '' @ server_hostname r))
                      | None \<Rightarrow> apr_table_set hs ''X-Forwarded-Server'' (Some (server_hostname r)))
            in (Core_proxy_request (req_proxy\<lparr>proxy_headers := Some hs\<rparr>), global_ctx)))
      else (Core_proxy_request req_proxy, global_ctx))"

text \<open>The header of a given name that a forwarded proxy request carries, if any.\<close>

definition forwarded_header :: "mapcache_request_proxy \<Rightarrow> string \<Rightarrow> string option" where
  "forwarded_header p name =
     (case proxy_headers p of None \<Rightarrow> None | Some h \<Rightarrow> apr_table_get h name)"

text \<open>A body reader that reads an empty body and raises no error.\<close>

definition read_empty_body ::
  "request_rec \<Rightarrow> mapcache_request_proxy \<Rightarrow> unit mapcache_context
   \<Rightarrow> mapcache_request_proxy \<times> unit mapcache_context" where
  "read_empty_body r p ctx = (p\<lparr>post_buf := Some [], post_len := 0\<rparr>, ctx)"

text \<open>
  A GET, a POST and a PUT request of client 192.0.2.7 for host \<^verbatim>\<open>maps.example.org\<close>, served
  by \<^verbatim>\<open>tiles01\<close>; the POST came through a proxy that had added forwarding headers. And a
  proxy request without headers, and a context without error.
\<close>

definition get_request :: request_rec where
  "get_request =
     \<lparr>handler = Some ''mapcache'', method_number = M_GET,
      headers_in = [(''Host'', Some ''maps.example.org'')],
      req_content_type = None, client_ip = ''192.0.2.7'', server_hostname = ''tiles01''\<rparr>"

definition post_request :: request_rec where
  "post_request =
     \<lparr>handler = Some ''mapcache'', method_number = M_POST,
      headers_in = [(''Host'', Some ''maps.example.org''), (''x-forwarded-for'', Some ''10.0.0.1''),
                    (''X-Forwarded-Host'', Some ''front.example.org'')],
      req_content_type = Some ''text/xml'', client_ip = ''192.0.2.7'', server_hostname = ''tiles01''\<rparr>"

definition put_request :: request_rec where
  "put_request = get_request\<lparr>method_number := M_PUT\<rparr>"

definition fresh_proxy_request :: mapcache_request_proxy where
  "fresh_proxy_request = \<lparr>proxy_headers = None, post_buf = None, post_len = 0\<rparr>"

definition fresh_ctx :: "unit mapcache_context" where
  "fresh_ctx = \<lparr>ctx_error = None, ctx_log = [], world = ()\<rparr>"

subsection \<open>Tiles and cache backends\<close>

text \<open>
  The fields of \<^verbatim>\<open>mapcache_tile\<close> and of the structures it points to that these files
  read or write. Pointers that may be null are options; a buffer is its bytes.
\<close>

record mapcache_grid =
  tile_sx :: int
  tile_sy :: int

record mapcache_image =
  img_w :: int
  img_h :: int
  img_data :: string

record mapcache_image_format =
  mime_type :: "string option"

record mapcache_tile =
  tileset_name :: string
  tileset_format :: "mapcache_image_format option"
  grid :: mapcache_grid
  tile_x :: int
  tile_y :: int
  tile_z :: int
  encoded_data :: "string option"
  raw_image :: "mapcache_image option"
  mtime :: int
  nodata :: int

text \<open>
  A cache backend as the multitier cache sees it: its name and what the calls
  \<^verbatim>\<open>mapcache_cache_tile_get(ctx, subcache, tile)\<close> and \<^verbatim>\<open>mapcache_cache_tile_set(ctx, subcache,
  tile)\<close> do to the tile and the context. Both take the tile by pointer, so both return it.
\<close>

record 'w mapcache_cache =
  cache_name :: string
  tile_get :: "mapcache_tile \<Rightarrow> 'w mapcache_context \<Rightarrow> int \<times> mapcache_tile \<times> 'w mapcache_context"
  tile_set :: "mapcache_tile \<Rightarrow> 'w mapcache_context \<Rightarrow> mapcache_tile \<times> 'w mapcache_context"

record 'w mapcache_cache_multitier =
  caches :: "'w mapcache_cache list"
  write_cache_idx :: int

subsection \<open>The multitier cache: reading a tile\<close>

text \<open>The two debug lines that \<^verbatim>\<open>_mapcache_cache_multitier_tile_get\<close> logs.\<close>

definition log_got_from_secondary ::
  "mapcache_tile \<Rightarrow> 'w mapcache_cache \<Rightarrow> 'w mapcache_context \<Rightarrow> 'w mapcache_context" where
  "log_got_from_secondary tile subcache ctx =
     ctx_log_line MAPCACHE_DEBUG ''got tile (%s,z=%d,y=%d,x=%d) from secondary cache (%s)''
       [ArgS (tileset_name tile), ArgD (tile_z tile), ArgD (tile_y tile), ArgD (tile_x tile),
        ArgS (cache_name subcache)] ctx"

definition log_transferring ::
  "mapcache_tile \<Rightarrow> 'w mapcache_cache \<Rightarrow> 'w mapcache_context \<Rightarrow> 'w mapcache_context" where
  "log_transferring tile subcache ctx =
     ctx_log_line MAPCACHE_DEBUG ''transferring tile (%s,z=%d,y=%d,x=%d) to cache (%s)''
       [ArgS (tileset_name tile), ArgD (tile_z tile), ArgD (tile_y tile), ArgD (tile_x tile),
        ArgS (cache_name subcache)] ctx"

text \<open>
  The body of the inner loop \<^verbatim>\<open>for(--i;i>=0;i--)\<close> of \<^verbatim>\<open>_mapcache_cache_multitier_tile_get\<close>
  at index \<open>i\<close>, on a pair of tile and context: the set on tier \<open>i\<close>, the clearing of
  its errors and the log line.
\<close>

definition multitier_transfer_body ::
  "'w mapcache_cache list \<Rightarrow> nat \<Rightarrow> mapcache_tile \<times> 'w mapcache_context
   \<Rightarrow> mapcache_tile \<times> 'w mapcache_context" where
  "multitier_transfer_body cs i tc =
     (let subcache = cs ! i;
          (tile, ctx) = tile_set subcache (fst tc) (snd tc);
          ctx = clear_errors ctx;
          ctx = log_transferring tile subcache ctx
      in (tile, ctx))"

text \<open>The inner loop: \<open>multitier_transfer cs n\<close> runs the body for \<open>i = n - 1\<close> down to \<open>0\<close>.\<close>

fun multitier_transfer ::
  "'w mapcache_cache list \<Rightarrow> nat \<Rightarrow> mapcache_tile \<times> 'w mapcache_context
   \<Rightarrow> mapcache_tile \<times> 'w mapcache_context" where
  "multitier_transfer cs 0 tc = tc"
| "multitier_transfer cs (Suc i) tc = multitier_transfer cs i (multitier_transfer_body cs i tc)"

text \<open>The outer loop \<^verbatim>\<open>for(i=1; i<cache->caches->nelts; i++)\<close>, entered at index \<open>i\<close>.\<close>

function multitier_secondary ::
  "mapcache_h \<Rightarrow> 'w mapcache_cache list \<Rightarrow> nat \<Rightarrow> mapcache_tile \<Rightarrow> 'w mapcache_context
   \<Rightarrow> int \<times> mapcache_tile \<times> 'w mapcache_context" where
  "multitier_secondary K cs i tile ctx =
     (if i < length cs then
        (let subcache = cs ! i;
             (ret, tile, ctx) = tile_get subcache tile ctx
         in if ret = MAPCACHE_SUCCESS K then
              (let ctx = log_got_from_secondary tile subcache ctx;
                   (tile, ctx) = multitier_transfer cs i (tile, ctx)
               in (MAPCACHE_SUCCESS K, tile, ctx))
            else multitier_secondary K cs (Suc i) tile ctx)
      else (MAPCACHE_CACHE_MISS K, tile, ctx))"
  by pat_completeness auto
termination
  by (relation "measure (\<lambda>(K, cs, i, tile, ctx). length cs - i)") auto

declare multitier_secondary.simps [simp del]

text \<open>
  \<^verbatim>\<open>_mapcache_cache_multitier_tile_get\<close>. It reads element 0 of the child array first; on
  an empty array that read is out of bounds, which is the result \<open>None\<close> here
  (configuration parsing refuses a multitier cache without children).
\<close>

definition mapcache_cache_multitier_tile_get ::
  "mapcache_h \<Rightarrow> 'w mapcache_cache_multitier \<Rightarrow> mapcache_tile \<Rightarrow> 'w mapcache_context
   \<Rightarrow> (int \<times> mapcache_tile \<times> 'w mapcache_context) option" where
  "mapcache_cache_multitier_tile_get K cache tile ctx =
     (case caches cache of
        [] \<Rightarrow> None
      | subcache # rest \<Rightarrow>
          (let (ret, tile, ctx) = tile_get subcache tile ctx
           in if ret = MAPCACHE_CACHE_MISS K
              then Some (multitier_secondary K (caches cache) 1 tile ctx)
              else Some (ret, tile, ctx)))"

text \<open>
  The tiers of a list that are consulted one after the other and all answer with a miss:
  the tile and context they leave, or \<open>None\<close> when one of them answers otherwise.
\<close>

fun all_miss ::
  "mapcache_h \<Rightarrow> 'w mapcache_cache list \<Rightarrow> mapcache_tile \<Rightarrow> 'w mapcache_context
   \<Rightarrow> (mapcache_tile \<times> 'w mapcache_context) option" where
  "all_miss K [] tile ctx = Some (tile, ctx)"
| "all_miss K (c # cs) tile ctx =
     (case tile_get c tile ctx of
        (ret, tile', ctx') \<Rightarrow> if ret = MAPCACHE_CACHE_MISS K then all_miss K cs tile' ctx' else None)"

text \<open>
  The tiers of a list that are consulted one after the other and none of which answers
  with a success.
\<close>

fun no_success ::
  "mapcache_h \<Rightarrow> 'w mapcache_cache list \<Rightarrow> mapcache_tile \<Rightarrow> 'w mapcache_context \<Rightarrow> bool" where
  "no_success K [] tile ctx = True"
| "no_success K (c # cs) tile ctx =
     (case tile_get c tile ctx of
        (ret, tile', ctx') \<Rightarrow> ret \<noteq> MAPCACHE_SUCCESS K \<and> no_success K cs tile' ctx')"

text \<open>Tier \<open>c\<close> contains the tile in a given context when reading it from \<open>c\<close> succeeds.\<close>

definition tier_contains ::
  "mapcache_h \<Rightarrow> 'w mapcache_cache \<Rightarrow> mapcache_tile \<Rightarrow> 'w mapcache_context \<Rightarrow> bool" where
  "tier_contains K c tile ctx = (fst (tile_get c tile ctx) = MAPCACHE_SUCCESS K)"



text \<open>The status that a read of the multitier cache returns.\<close>

definition multitier_get_status ::
  "mapcache_h \<Rightarrow> 'w mapcache_cache_multitier \<Rightarrow> mapcache_tile \<Rightarrow> 'w mapcache_context \<Rightarrow> int option" where
  "multitier_get_status K cache tile ctx =
     map_option fst (mapcache_cache_multitier_tile_get K cache tile ctx)"

subsection \<open>Example backends and macro values\<close>

text \<open>
  Values for the status macros that keep the three results of a read apart, as
  section 4.D of the spec requires, and in which \<^verbatim>\<open>MAPCACHE_FAILURE\<close> and \<^verbatim>\<open>MAPCACHE_TRUE\<close>
  are both 1 and \<^verbatim>\<open>MAPCACHE_SUCCESS\<close> and \<^verbatim>\<open>MAPCACHE_FALSE\<close> both 0, the usual C values
  and those of the MapCache header.
\<close>

definition mapcache_h_values :: mapcache_h where
  "mapcache_h_values =
     \<lparr>MAPCACHE_SUCCESS = 0, MAPCACHE_FAILURE = 1, MAPCACHE_TRUE = 1, MAPCACHE_FALSE = 0,
      MAPCACHE_CACHE_MISS = 5\<rparr>"

text \<open>
  Small backends to run the multitier cache on. The world is one store per backend
  number, from the position of a tile to its bytes. \<open>mem_cache\<close> stores and finds tiles;
  \<open>readonly_cache\<close> finds tiles but its set raises an error and stores nothing;
  \<open>down_cache\<close> answers every read with a failure and an error.
\<close>

type_synonym tile_pos = "int \<times> int \<times> int"

type_synonym mem_world = "nat \<Rightarrow> tile_pos \<Rightarrow> string option"

definition tile_pos_of :: "mapcache_tile \<Rightarrow> tile_pos" where
  "tile_pos_of tile = (tile_x tile, tile_y tile, tile_z tile)"

definition mem_get ::
  "mapcache_h \<Rightarrow> nat \<Rightarrow> mapcache_tile \<Rightarrow> mem_world mapcache_context
   \<Rightarrow> int \<times> mapcache_tile \<times> mem_world mapcache_context" where
  "mem_get K n tile ctx =
     (case world ctx n (tile_pos_of tile) of
        None \<Rightarrow> (MAPCACHE_CACHE_MISS K, tile, ctx)
      | Some bytes \<Rightarrow> (MAPCACHE_SUCCESS K, tile\<lparr>encoded_data := Some bytes\<rparr>, ctx))"

definition mem_set ::
  "nat \<Rightarrow> mapcache_tile \<Rightarrow> mem_world mapcache_context \<Rightarrow> mapcache_tile \<times> mem_world mapcache_context" where
  "mem_set n tile ctx =
     (tile, ctx\<lparr>world := (world ctx)(n := (world ctx n)(tile_pos_of tile := encoded_data tile))\<rparr>)"

definition mem_cache :: "mapcache_h \<Rightarrow> nat \<Rightarrow> mem_world mapcache_cache" where
  "mem_cache K n = \<lparr>cache_name = ''mem'', tile_get = mem_get K n, tile_set = mem_set n\<rparr>"

definition readonly_cache :: "mapcache_h \<Rightarrow> nat \<Rightarrow> mem_world mapcache_cache" where
  "readonly_cache K n =
     \<lparr>cache_name = ''readonly'', tile_get = mem_get K n,
      tile_set = (\<lambda>tile ctx. (tile, set_error 500 ''cache is read-only'' ctx))\<rparr>"

definition down_cache :: "mapcache_h \<Rightarrow> mem_world mapcache_cache" where
  "down_cache K =
     \<lparr>cache_name = ''down'',
      tile_get = (\<lambda>tile ctx. (MAPCACHE_FAILURE K, tile, set_error 500 ''backend is down'' ctx)),
      tile_set = (\<lambda>tile ctx. (tile, set_error 500 ''backend is down'' ctx))\<rparr>"

definition tile345 :: mapcache_tile where
  "tile345 =
     \<lparr>tileset_name = ''l'', tileset_format = None, grid = \<lparr>tile_sx = 256, tile_sy = 256\<rparr>,
      tile_x = 4, tile_y = 5, tile_z = 3, encoded_data = None, raw_image = None, mtime = 0,
      nodata = 0\<rparr>"

text \<open>A fresh context over a world in which only backend 1 holds the tile at (4, 5, 3).\<close>

definition ctx_tier1_only :: "mem_world mapcache_context" where
  "ctx_tier1_only =
     \<lparr>ctx_error = None, ctx_log = [],
      world = (\<lambda>n pos. if n = 1 \<and> pos = (4, 5, 3) then Some ''PNG'' else None)\<rparr>"

text \<open>Two-tier caches over these backends, and a context over a world without any tile.\<close>

definition multitier_ro_mem :: "mem_world mapcache_cache_multitier" where
  "multitier_ro_mem =
     \<lparr>caches = [readonly_cache mapcache_h_values 0, mem_cache mapcache_h_values 1],
      write_cache_idx = 1\<rparr>"

definition multitier_mem_mem :: "mem_world mapcache_cache_multitier" where
  "multitier_mem_mem =
     \<lparr>caches = [mem_cache mapcache_h_values 0, mem_cache mapcache_h_values 1],
      write_cache_idx = 1\<rparr>"

definition multitier_mem_down :: "mem_world mapcache_cache_multitier" where
  "multitier_mem_down =
     \<lparr>caches = [mem_cache mapcache_h_values 0, down_cache mapcache_h_values],
      write_cache_idx = 0\<rparr>"

definition ctx_empty :: "mem_world mapcache_context" where
  "ctx_empty = \<lparr>ctx_error = None, ctx_log = [], world = (\<lambda>n pos. None)\<rparr>"

subsection \<open>Lockers\<close>

text \<open>
  The enum \<^verbatim>\<open>mapcache_lock_result\<close>, and what a \<^verbatim>\<open>void *lock\<close> can point to in the locking
  file: nothing, the lock file name of the disk locker, or the
  \<^verbatim>\<open>struct mapcache_locker_fallback_lock\<close> of the fallback locker. The field \<^verbatim>\<open>locker\<close> of that
  struct points to one of the children of the fallback locker; it is kept as the index of
  that child in the array \<^verbatim>\<open>lockers\<close>, \<open>None\<close> for the null pointer.
\<close>

datatype mapcache_lock_result = MAPCACHE_LOCK_AQUIRED | MAPCACHE_LOCK_LOCKED | MAPCACHE_LOCK_NOENT

datatype lock_token = NULL_lock | Lockname string | Fallback_lock "nat option" lock_token

text \<open>
  \<^verbatim>\<open>struct mapcache_locker\<close>: the three function pointers and the two numbers, which the
  configuration parser reads with \<^verbatim>\<open>strtod\<close>. \<^verbatim>\<open>aquire_lock\<close> receives the resource and the
  current content of \<^verbatim>\<open>*lock\<close> and returns the new content with its result. The numbers are
  seconds, held in doubles.
\<close>

record 'w mapcache_locker =
  aquire_lock ::
    "string \<Rightarrow> lock_token \<Rightarrow> 'w mapcache_context
     \<Rightarrow> mapcache_lock_result \<times> lock_token \<times> 'w mapcache_context"
  ping_lock :: "lock_token \<Rightarrow> 'w mapcache_context \<Rightarrow> mapcache_lock_result \<times> 'w mapcache_context"
  release_lock :: "lock_token \<Rightarrow> 'w mapcache_context \<Rightarrow> 'w mapcache_context"
  timeout :: c_double
  retry_interval :: c_double

text \<open>
  The two APR calls of \<^verbatim>\<open>mapcache_lock_or_wait_for_resource\<close>: \<^verbatim>\<open>apr_time_now\<close> reads the
  clock of the world in microseconds, \<^verbatim>\<open>apr_sleep\<close> lets the world run for at least the
  given number of microseconds.
\<close>

record 'w apr =
  apr_time_now :: "'w \<Rightarrow> int"
  apr_sleep :: "int \<Rightarrow> 'w \<Rightarrow> 'w"

text \<open>C division of integers truncates towards zero.\<close>

definition c_div :: "int \<Rightarrow> int \<Rightarrow> int" where
  "c_div a b = sgn a * sgn b * (\<bar>a\<bar> div \<bar>b\<bar>)"

definition mapcache_unlock_resource ::
  "'w mapcache_locker \<Rightarrow> lock_token \<Rightarrow> 'w mapcache_context \<Rightarrow> 'w mapcache_context" where
  "mapcache_unlock_resource locker lck ctx = release_lock locker lck ctx"

text \<open>
  \<^verbatim>\<open>unsigned int waited = apr_time_as_msec(apr_time_now()-start_wait)\<close>: the difference of
  two 64-bit times in microseconds, divided by 1000, stored in 32 bits.
\<close>

definition waited_msec :: "'w apr \<Rightarrow> int \<Rightarrow> 'w mapcache_context \<Rightarrow> int" where
  "waited_msec apr start_wait ctx =
     c_div (apr_time_now apr (world ctx) - start_wait) 1000 mod 2 ^ 32"

text \<open>
  One pass through the body of \<^verbatim>\<open>while(rv != MAPCACHE_LOCK_NOENT)\<close> together with the
  test of the loop that follows it: \<open>Inl\<close> is a \<^verbatim>\<open>return\<close> with its value, \<open>Inr\<close> the
  context with which the loop goes round again. The arithmetic is that of C:
  \<^verbatim>\<open>waited > locker->timeout*1000\<close> multiplies two doubles and compares \<^verbatim>\<open>waited\<close>, converted
  to a double, with the rounded product; \<^verbatim>\<open>waited/1000.0\<close> is the rounded quotient of two
  integers that doubles hold exactly; and the argument of \<^verbatim>\<open>apr_sleep\<close> is the rounded product
  \<^verbatim>\<open>locker->retry_interval * 1000000\<close>, converted to the 64-bit \<^verbatim>\<open>apr_interval_time_t\<close>. The
  pass is \<open>None\<close> when that conversion is undefined.
\<close>

definition wait_iteration ::
  "mapcache_h \<Rightarrow> 'w apr \<Rightarrow> 'w mapcache_locker \<Rightarrow> lock_token \<Rightarrow> int \<Rightarrow> 'w mapcache_context
   \<Rightarrow> ((int \<times> 'w mapcache_context) + 'w mapcache_context) option" where
  "wait_iteration K apr locker lck start_wait ctx =
     (let waited = waited_msec apr start_wait ctx in
      if double_less (double_mult (timeout locker) (double_of_int 1000)) (double_of_int waited) then
        (let ctx = mapcache_unlock_resource locker lck ctx;
             ctx = ctx_log_line MAPCACHE_ERROR
                     ''deleting a possibly stale lock after waiting on it for %g seconds''
                     [ArgG (double_round waited 1000)] ctx
         in Some (Inl (MAPCACHE_FALSE K, ctx)))
      else
        (case double_to_int64 (double_mult (retry_interval locker) (double_of_int 1000000)) of
           None \<Rightarrow> None
         | Some usec \<Rightarrow>
             (let ctx = ctx\<lparr>world := apr_sleep apr usec (world ctx)\<rparr>;
                  (rv, ctx) = ping_lock locker lck ctx
              in if rv \<noteq> MAPCACHE_LOCK_NOENT then Some (Inr ctx)
                 else Some (Inl (MAPCACHE_FALSE K, ctx)))))"

text \<open>
  The loop. It need not end: \<open>None\<close> is the run that returns nothing, because it waits
  forever or because a pass of it is undefined.
\<close>

partial_function (option) wait_loop ::
  "mapcache_h \<Rightarrow> 'w apr \<Rightarrow> 'w mapcache_locker \<Rightarrow> lock_token \<Rightarrow> int \<Rightarrow> 'w mapcache_context
   \<Rightarrow> (int \<times> 'w mapcache_context) option" where
  "wait_loop K apr locker lck start_wait ctx =
     (case wait_iteration K apr locker lck start_wait ctx of
        None \<Rightarrow> None
      | Some (Inl r) \<Rightarrow> Some r
      | Some (Inr ctx') \<Rightarrow> wait_loop K apr locker lck start_wait ctx')"

text \<open>
  \<^verbatim>\<open>mapcache_lock_or_wait_for_resource\<close>. The result is the returned \<^verbatim>\<open>int\<close>, the content it
  leaves in \<^verbatim>\<open>*lock\<close> and the context.
\<close>

definition mapcache_lock_or_wait_for_resource ::
  "mapcache_h \<Rightarrow> 'w apr \<Rightarrow> 'w mapcache_locker \<Rightarrow> string \<Rightarrow> lock_token \<Rightarrow> 'w mapcache_context
   \<Rightarrow> (int \<times> lock_token \<times> 'w mapcache_context) option" where
  "mapcache_lock_or_wait_for_resource K apr locker resource lock0 ctx =
     (let (rv, lck, ctx) = aquire_lock locker resource lock0 ctx in
      if GC_HAS_ERROR ctx then Some (MAPCACHE_FAILURE K, lck, ctx)
      else if rv = MAPCACHE_LOCK_AQUIRED then Some (MAPCACHE_TRUE K, lck, ctx)
      else
        (let start_wait = apr_time_now apr (world ctx) in
         case wait_loop K apr locker lck start_wait ctx of
           None \<Rightarrow> None
         | Some (r, ctx') \<Rightarrow> Some (r, lck, ctx')))"

text \<open>
  The context at the head of the loop after \<open>n\<close> passes in each of which the wait had not
  timed out and the ping still found the lock; \<open>None\<close> when an earlier pass returned or was
  undefined.
\<close>

fun wait_rounds ::
  "mapcache_h \<Rightarrow> 'w apr \<Rightarrow> 'w mapcache_locker \<Rightarrow> lock_token \<Rightarrow> int \<Rightarrow> nat
   \<Rightarrow> 'w mapcache_context \<Rightarrow> 'w mapcache_context option" where
  "wait_rounds K apr locker lck start_wait 0 ctx = Some ctx"
| "wait_rounds K apr locker lck start_wait (Suc n) ctx =
     (case wait_iteration K apr locker lck start_wait ctx of
        Some (Inr ctx') \<Rightarrow> wait_rounds K apr locker lck start_wait n ctx'
      | _ \<Rightarrow> None)"

subsection \<open>The fallback locker\<close>

text \<open>
  The loop of \<^verbatim>\<open>mapcache_locker_fallback_aquire_lock\<close>, entered at index \<open>i\<close>; \<open>flock\<close> is the
  field \<^verbatim>\<open>fallback_lock->lock\<close>, through which each child returns its own lock. The field
  \<^verbatim>\<open>fallback_lock->locker\<close> is null until a child has acquired.
\<close>

function fallback_aquire_loop ::
  "'w mapcache_locker list \<Rightarrow> nat \<Rightarrow> string \<Rightarrow> lock_token \<Rightarrow> 'w mapcache_context
   \<Rightarrow> mapcache_lock_result \<times> lock_token \<times> 'w mapcache_context" where
  "fallback_aquire_loop lockers i resource flock ctx =
     (if i < length lockers then
        (let child_locker = lockers ! i;
             (error, ctx) = pop_errors ctx;
             (lock_result, flock, ctx) = aquire_lock child_locker resource flock ctx
         in if \<not> GC_HAS_ERROR ctx then
              (lock_result, Fallback_lock (Some i) flock, push_errors error ctx)
            else
              (let ctx = (if int i < int (length lockers) - 1 then clear_errors ctx else ctx);
                   ctx = push_errors error ctx
               in fallback_aquire_loop lockers (Suc i) resource flock ctx))
      else (MAPCACHE_LOCK_NOENT, Fallback_lock None flock, ctx))"
  by pat_completeness auto
termination
  by (relation "measure (\<lambda>(lockers, i, resource, flock, ctx). length lockers - i)") auto

declare fallback_aquire_loop.simps [simp del]

text \<open>
  \<^verbatim>\<open>mapcache_locker_fallback_aquire_lock\<close>: the struct it allocates is zeroed, and \<^verbatim>\<open>*lock\<close>
  points to it from the start, whatever it held before.
\<close>

definition mapcache_locker_fallback_aquire_lock ::
  "'w mapcache_locker list \<Rightarrow> string \<Rightarrow> lock_token \<Rightarrow> 'w mapcache_context
   \<Rightarrow> mapcache_lock_result \<times> lock_token \<times> 'w mapcache_context" where
  "mapcache_locker_fallback_aquire_lock lockers resource lock0 ctx =
     fallback_aquire_loop lockers 0 resource NULL_lock ctx"

text \<open>
  \<^verbatim>\<open>mapcache_locker_fallback_release_lock\<close> and \<^verbatim>\<open>mapcache_locker_fallback_ping_lock\<close> call
  through \<^verbatim>\<open>flock->locker\<close>. The result is \<open>None\<close> when that call dereferences a pointer that
  is null or is not a fallback lock of these children.
\<close>

definition mapcache_locker_fallback_release_lock ::
  "'w mapcache_locker list \<Rightarrow> lock_token \<Rightarrow> 'w mapcache_context \<Rightarrow> 'w mapcache_context option" where
  "mapcache_locker_fallback_release_lock lockers lck ctx =
     (case lck of
        Fallback_lock (Some i) flock \<Rightarrow>
          if i < length lockers then Some (release_lock (lockers ! i) flock ctx) else None
      | _ \<Rightarrow> None)"

definition mapcache_locker_fallback_ping_lock ::
  "'w mapcache_locker list \<Rightarrow> lock_token \<Rightarrow> 'w mapcache_context
   \<Rightarrow> (mapcache_lock_result \<times> 'w mapcache_context) option" where
  "mapcache_locker_fallback_ping_lock lockers lck ctx =
     (case lck of
        Fallback_lock (Some i) flock \<Rightarrow>
          if i < length lockers then Some (ping_lock (lockers ! i) flock ctx) else None
      | _ \<Rightarrow> None)"

text \<open>
  The children of a list that are tried one after the other, each with a later child
  still to come, and that all raise an error: the child lock and the context they leave,
  or \<open>None\<close> when one of them completes without error.
\<close>

fun fallback_failed ::
  "'w mapcache_locker list \<Rightarrow> string \<Rightarrow> lock_token \<Rightarrow> 'w mapcache_context
   \<Rightarrow> (lock_token \<times> 'w mapcache_context) option" where
  "fallback_failed [] resource flock ctx = Some (flock, ctx)"
| "fallback_failed (l # ls) resource flock ctx =
     (case aquire_lock l resource flock (snd (pop_errors ctx)) of
        (lock_result, flock', ctx') \<Rightarrow>
          if GC_HAS_ERROR ctx'
          then fallback_failed ls resource flock' (push_errors (fst (pop_errors ctx)) (clear_errors ctx'))
          else None)"

subsection \<open>Example lockers\<close>

text \<open>
  A world to run lockers in: a clock in microseconds, the time until which another worker
  holds the lock, and the calls made so far.
\<close>

datatype lock_event = Slept int | Pinged nat lock_token | Released nat lock_token

record lock_world =
  clock :: int
  busy_until :: int
  events :: "lock_event list"

definition world_apr :: "lock_world apr" where
  "world_apr =
     \<lparr>apr_time_now = clock,
      apr_sleep = (\<lambda>d w. w\<lparr>clock := clock w + d, events := events w @ [Slept d]\<rparr>)\<rparr>"

definition note_event :: "lock_event \<Rightarrow> lock_world mapcache_context \<Rightarrow> lock_world mapcache_context" where
  "note_event e ctx = ctx\<lparr>world := (world ctx)\<lparr>events := events (world ctx) @ [e]\<rparr>\<rparr>"

definition example_ping ::
  "nat \<Rightarrow> lock_token \<Rightarrow> lock_world mapcache_context
   \<Rightarrow> mapcache_lock_result \<times> lock_world mapcache_context" where
  "example_ping n lck ctx =
     (if clock (world ctx) < busy_until (world ctx) then MAPCACHE_LOCK_LOCKED
      else MAPCACHE_LOCK_NOENT, note_event (Pinged n lck) ctx)"

text \<open>
  Locker \<open>n\<close> of three kinds, each with a timeout of one second and a retry interval of
  half a second: \<open>busy_locker\<close> finds the lock held by another worker, \<open>free_locker\<close>
  acquires it, and the acquire of \<open>failing_locker\<close> raises an error.
\<close>

definition busy_locker :: "nat \<Rightarrow> lock_world mapcache_locker" where
  "busy_locker n =
     \<lparr>aquire_lock = (\<lambda>resource lck ctx.
        (MAPCACHE_LOCK_LOCKED, Lockname (lock_filename_for_resource ''/tmp'' resource), ctx)),
      ping_lock = example_ping n,
      release_lock = (\<lambda>lck ctx. note_event (Released n lck) ctx),
      timeout = double_of_int 1, retry_interval = double_round 1 2\<rparr>"

definition free_locker :: "nat \<Rightarrow> lock_world mapcache_locker" where
  "free_locker n =
     \<lparr>aquire_lock = (\<lambda>resource lck ctx.
        (MAPCACHE_LOCK_AQUIRED, Lockname (lock_filename_for_resource ''/tmp'' resource), ctx)),
      ping_lock = example_ping n,
      release_lock = (\<lambda>lck ctx. note_event (Released n lck) ctx),
      timeout = double_of_int 1, retry_interval = double_round 1 2\<rparr>"

definition failing_locker :: "nat \<Rightarrow> lock_world mapcache_locker" where
  "failing_locker n =
     \<lparr>aquire_lock = (\<lambda>resource lck ctx.
        (MAPCACHE_LOCK_NOENT, lck, set_error 500 ''failed to create lockfile'' ctx)),
      ping_lock = example_ping n,
      release_lock = (\<lambda>lck ctx. note_event (Released n lck) ctx),
      timeout = double_of_int 1, retry_interval = double_round 1 2\<rparr>"

text \<open>
  A locker as the configuration \<^verbatim>\<open><timeout>0.3</timeout>\<close> with the default retry interval
  of \<^verbatim>\<open>0.1\<close> makes it: each number is the double nearest to the decimal.
\<close>

definition impatient_locker :: "nat \<Rightarrow> lock_world mapcache_locker" where
  "impatient_locker n =
     (busy_locker n)\<lparr>timeout := double_round 3 10, retry_interval := double_round 1 10\<rparr>"

text \<open>
  A context at time 0 in which the other worker never finishes; and two contexts at
  second 5, in the first of which the other worker never finishes while in the second it
  finishes a quarter of a second later.
\<close>

definition ctx_stale :: "lock_world mapcache_context" where
  "ctx_stale =
     \<lparr>ctx_error = None, ctx_log = [],
      world = \<lparr>clock = 0, busy_until = 1000000000, events = []\<rparr>\<rparr>"

definition ctx_stale_at_5 :: "lock_world mapcache_context" where
  "ctx_stale_at_5 =
     \<lparr>ctx_error = None, ctx_log = [],
      world = \<lparr>clock = 5000000, busy_until = 1000000000, events = []\<rparr>\<rparr>"

definition ctx_short :: "lock_world mapcache_context" where
  "ctx_short =
     \<lparr>ctx_error = None, ctx_log = [],
      world = \<lparr>clock = 5000000, busy_until = 5250000, events = []\<rparr>\<rparr>"

subsection \<open>The riak backend: data and outside calls\<close>

text \<open>
  The fields of riack's content and object structures that the backend reads or writes.
  A \<^verbatim>\<open>riack_string\<close> is its characters, the null string being empty; \<^verbatim>\<open>content_count\<close> is
  the length of the list of contents, \<^verbatim>\<open>data_len\<close> the length of the data.
\<close>

record riack_content =
  content_data :: string
  content_type_value :: string
  last_modified_present :: bool
  last_modified :: int
  last_modified_usecs_present :: bool
  last_modified_usecs :: int

record riack_object =
  object_bucket :: string
  object_key :: string
  object_content :: "riack_content list"

text \<open>The fields of \<^verbatim>\<open>struct mapcache_cache_riak\<close> that the tile operations read.\<close>

record mapcache_cache_riak =
  riak_name :: string
  key_template :: string
  bucket_template :: string
  bucket_type_template :: "string option"
  riak_r :: int
  riak_w :: int
  detect_blank :: int

datatype mapcache_image_format_type = GC_UNKNOWN | GC_PNG | GC_JPEG

text \<open>
  What a call into the rest of the library yields when it can raise: \<open>Inl\<close> the code and
  message that it sets in the context, \<open>Inr\<close> its result.
\<close>

type_synonym 'a raised = "(int \<times> string) + 'a"

text \<open>
  The calls that leave the file. A pooled connection is a number. The riack calls work
  on the world; \<^verbatim>\<open>riack_get_ext\<close> yields \<open>Inl\<close> an error code other than \<^verbatim>\<open>RIACK_SUCCESS\<close> or
  \<open>Inr\<close> the object fetched, \<^verbatim>\<open>riack_put_ext\<close> and \<^verbatim>\<open>riack_reconnect\<close> yield \<open>Some\<close> such code
  or \<open>None\<close> for \<^verbatim>\<open>RIACK_SUCCESS\<close>. Their arguments are the client, bucket, key, the \<open>r\<close> or
  \<open>w\<close> property when it overrides the bucket's, and the bucket type.
  \<^verbatim>\<open>mapcache_empty_png_decode\<close> receives the width, the height, the stored bytes and the
  current value of \<^verbatim>\<open>tile->nodata\<close>, and yields the buffer and the value it leaves there.
  \<open>format_write\<close> is \<^verbatim>\<open>tile->tileset->format->write\<close> on the raw image of the tile.
\<close>

record 'w riak_env =
  mapcache_util_get_tile_key :: "mapcache_tile \<Rightarrow> string \<Rightarrow> string raised"
  mapcache_connection_pool_get_connection :: "string \<Rightarrow> 'w \<Rightarrow> nat raised \<times> 'w"
  mapcache_connection_pool_release_connection :: "nat \<Rightarrow> 'w \<Rightarrow> 'w"
  mapcache_connection_pool_invalidate_connection :: "nat \<Rightarrow> 'w \<Rightarrow> 'w"
  riack_get_ext ::
    "nat \<Rightarrow> string \<Rightarrow> string \<Rightarrow> int option \<Rightarrow> string option \<Rightarrow> 'w \<Rightarrow> (int + riack_object) \<times> 'w"
  riack_put_ext :: "nat \<Rightarrow> riack_object \<Rightarrow> string option \<Rightarrow> int option \<Rightarrow> 'w \<Rightarrow> int option \<times> 'w"
  riack_reconnect :: "nat \<Rightarrow> 'w \<Rightarrow> int option \<times> 'w"
  mapcache_imageio_decode :: "string option \<Rightarrow> mapcache_image raised"
  mapcache_image_blank_color :: "mapcache_image \<Rightarrow> int"
  format_write :: "mapcache_tile \<Rightarrow> string raised"
  mapcache_imageio_header_sniff :: "string \<Rightarrow> mapcache_image_format_type"
  mapcache_empty_png_decode :: "int \<Rightarrow> int \<Rightarrow> string \<Rightarrow> int \<Rightarrow> string option \<times> int"

definition string_from_template :: "'w riak_env \<Rightarrow> mapcache_tile \<Rightarrow> string \<Rightarrow> string raised" where
  "string_from_template env tile template_string =
     (if CHR ''{'' \<in> set template_string
      then mapcache_util_get_tile_key env tile template_string
      else Inr template_string)"

text \<open>The bucket type: none when no template is configured.\<close>

definition riak_bucket_type ::
  "'w riak_env \<Rightarrow> mapcache_cache_riak \<Rightarrow> mapcache_tile \<Rightarrow> string option raised" where
  "riak_bucket_type env cache tile =
     (case bucket_type_template cache of
        None \<Rightarrow> Inr None
      | Some t \<Rightarrow> (case string_from_template env tile t of Inl e \<Rightarrow> Inl e | Inr s \<Rightarrow> Inr (Some s)))"

definition apr_time_make :: "int \<Rightarrow> int \<Rightarrow> int" where
  "apr_time_make sec usec = sec * 1000000 + usec"

subsection \<open>The riak backend: the retry loop\<close>

text \<open>
  The loop \<^verbatim>\<open>for (connect_error = riack_reconnect(client); connect_error != RIACK_SUCCESS &&
  retries > 0; connect_error = riack_reconnect(client)) --retries;\<close> after its first
  reconnect.
\<close>

function riak_reconnect_loop ::
  "'w riak_env \<Rightarrow> nat \<Rightarrow> int option \<Rightarrow> int \<Rightarrow> 'w \<Rightarrow> int option \<times> int \<times> 'w" where
  "riak_reconnect_loop env client connect_error retries w =
     (if connect_error \<noteq> None \<and> retries > 0 then
        (let retries = retries - 1;
             (connect_error, w) = riack_reconnect env client w
         in riak_reconnect_loop env client connect_error retries w)
      else (connect_error, retries, w))"
  by pat_completeness auto
termination
  by (relation "measure (\<lambda>(env, client, connect_error, retries, w). nat retries)") auto

declare riak_reconnect_loop.simps [simp del]

text \<open>
  The loop \<^verbatim>\<open>do { error = ...; if (error != RIACK_SUCCESS) { log; reconnect; --retries; } }
  while (error != RIACK_SUCCESS && retries >= 0)\<close>, which the three tile operations each
  write out around their own riack call \<open>attempt\<close> and their own warning \<open>warn\<close>. The result
  is the outcome of the last attempt, \<^verbatim>\<open>connect_error\<close> and the context.
\<close>

function riak_retry ::
  "'w riak_env \<Rightarrow> (int \<Rightarrow> int \<Rightarrow> 'w mapcache_context \<Rightarrow> 'w mapcache_context)
   \<Rightarrow> ('w \<Rightarrow> (int + 'r) \<times> 'w) \<Rightarrow> nat \<Rightarrow> int option \<Rightarrow> int \<Rightarrow> 'w mapcache_context
   \<Rightarrow> (int + 'r) \<times> int option \<times> 'w mapcache_context" where
  "riak_retry env warn attempt client connect_error retries ctx =
     (case attempt (world ctx) of
        (Inr v, w) \<Rightarrow> (Inr v, connect_error, ctx\<lparr>world := w\<rparr>)
      | (Inl error, w) \<Rightarrow>
          (let ctx = warn retries error (ctx\<lparr>world := w\<rparr>);
               loop = riak_reconnect_loop env client
                        (fst (riack_reconnect env client (world ctx))) retries
                        (snd (riack_reconnect env client (world ctx)));
               connect_error = fst loop;
               retries = fst (snd loop) - 1;
               ctx = ctx\<lparr>world := snd (snd loop)\<rparr>
           in if retries \<ge> 0
              then riak_retry env warn attempt client connect_error retries ctx
              else (Inl error, connect_error, ctx)))"
  by pat_completeness auto
termination
proof -
  have le: "fst (snd (riak_reconnect_loop env client ce n w')) \<le> n"
    for env :: "'w riak_env" and client ce n w'
  proof (induction env client ce n w' rule: riak_reconnect_loop.induct)
    case (1 env client connect_error retries w)
    show ?case
    proof (cases "connect_error \<noteq> None \<and> retries > 0")
      case True
      with "1.IH" [of "retries - 1" "riack_reconnect env client w"
          "fst (riack_reconnect env client w)" "snd (riack_reconnect env client w)"]
      show ?thesis
        by (subst riak_reconnect_loop.simps) (simp add: Let_def case_prod_beta)
    next
      case False
      then show ?thesis by (subst riak_reconnect_loop.simps) auto
    qed
  qed
  show ?thesis
  proof (relation "measure (\<lambda>(env, warn, attempt, client, connect_error, retries, ctx).
                              nat (retries + 1))", goal_cases)
    case 1
    show ?case by simp
  next
    case (2 env warn attempt client connect_error retries ctx x y a)
    let ?c = "warn retries a (ctx\<lparr>world := y\<rparr>)"
    have "fst (snd (riak_reconnect_loop env client (fst (riack_reconnect env client (world ?c)))
                      retries (snd (riack_reconnect env client (world ?c))))) \<le> retries"
      by (rule le)
    with 2 show ?case by simp
  qed
qed

declare riak_retry.simps [simp del]

subsection \<open>The riak backend: the lines that open each tile operation\<close>

text \<open>
  Each tile operation opens with the same lines: the key, the bucket and the bucket type
  are computed from the templates, each followed by a test of the context for an error.
  \<open>Inl\<close> is the context with which the operation returns at such a test, \<open>Inr\<close> the three
  names. The test after a call that raised nothing can only find an error that was pending
  when the operation was called; it is written once, after the first call.
\<close>

definition riak_names ::
  "'w riak_env \<Rightarrow> mapcache_cache_riak \<Rightarrow> mapcache_tile \<Rightarrow> 'w mapcache_context
   \<Rightarrow> 'w mapcache_context + (string \<times> string \<times> string option)" where
  "riak_names env cache tile ctx =
     (case mapcache_util_get_tile_key env tile (key_template cache) of
        Inl (c, m) \<Rightarrow> Inl (set_error c m ctx)
      | Inr key \<Rightarrow>
          if GC_HAS_ERROR ctx then Inl ctx
          else
            (case string_from_template env tile (bucket_template cache) of
               Inl (c, m) \<Rightarrow> Inl (set_error c m ctx)
             | Inr bucket \<Rightarrow>
                 (case riak_bucket_type env cache tile of
                    Inl (c, m) \<Rightarrow> Inl (set_error c m ctx)
                  | Inr pbucket_type \<Rightarrow> Inr (key, bucket, pbucket_type))))"

text \<open>
  \<^verbatim>\<open>_riak_get_connection\<close> with the test that follows it: \<open>Inl\<close> the context with the error of
  the pool, \<open>Inr\<close> the connection and the context.
\<close>

definition riak_get_connection ::
  "'w riak_env \<Rightarrow> mapcache_cache_riak \<Rightarrow> 'w mapcache_context
   \<Rightarrow> 'w mapcache_context + (nat \<times> 'w mapcache_context)" where
  "riak_get_connection env cache ctx =
     (case mapcache_connection_pool_get_connection env (riak_name cache) (world ctx) of
        (Inl (c, m), w) \<Rightarrow> Inl (set_error c m (ctx\<lparr>world := w\<rparr>))
      | (Inr pc, w) \<Rightarrow> Inr (pc, ctx\<lparr>world := w\<rparr>))"

text \<open>The warning that a retry loop logs, with the format string of each operation.\<close>

definition riak_warn ::
  "string \<Rightarrow> string \<Rightarrow> mapcache_cache_riak \<Rightarrow> int \<Rightarrow> int \<Rightarrow> 'w mapcache_context
   \<Rightarrow> 'w mapcache_context" where
  "riak_warn fmt key cache retries error ctx =
     ctx_log_line MAPCACHE_WARN fmt [ArgD (4 - retries), ArgS key, ArgS (riak_name cache), ArgD error]
       ctx"

definition riak_get_fmt :: string where
  "riak_get_fmt = ''Retry %d in riak_get for tile %s from cache %s due to error %d''"

definition riak_has_tile_fmt :: string where
  "riak_has_tile_fmt = ''Retry %d in riak_has_tile for tile %s from cache %s due to error %d''"

definition riak_set_fmt :: string where
  "riak_set_fmt = ''Retry %d in riak_set for tile %s from cache %s due to error %d''"

text \<open>The properties that override the defaults of the bucket: \<open>r\<close> for a read, \<open>w\<close> for a
  write, when the configured number is positive.\<close>

definition riak_read_properties :: "mapcache_cache_riak \<Rightarrow> int option" where
  "riak_read_properties cache = (if riak_r cache > 0 then Some (riak_r cache) else None)"

definition riak_write_properties :: "mapcache_cache_riak \<Rightarrow> int option" where
  "riak_write_properties cache = (if riak_w cache > 0 then Some (riak_w cache) else None)"

text \<open>
  The connection goes back to the pool: invalidated when the last reconnect failed,
  released otherwise.
\<close>

definition riak_give_back ::
  "'w riak_env \<Rightarrow> nat \<Rightarrow> int option \<Rightarrow> 'w mapcache_context \<Rightarrow> 'w mapcache_context" where
  "riak_give_back env pc connect_error ctx =
     (if connect_error \<noteq> None
      then ctx\<lparr>world := mapcache_connection_pool_invalidate_connection env pc (world ctx)\<rparr>
      else ctx\<lparr>world := mapcache_connection_pool_release_connection env pc (world ctx)\<rparr>)"

definition riak_release ::
  "'w riak_env \<Rightarrow> nat \<Rightarrow> 'w mapcache_context \<Rightarrow> 'w mapcache_context" where
  "riak_release env pc ctx =
     ctx\<lparr>world := mapcache_connection_pool_release_connection env pc (world ctx)\<rparr>"

subsection \<open>The riak backend: reading a tile\<close>

definition blank_content_type :: string where
  "blank_content_type = ''image/mapcache-rgba''"

text \<open>
  The lines of \<^verbatim>\<open>_mapcache_cache_riak_get\<close> after the test for a miss: the tile is filled
  from the first content of the object, through the empty-png decoder when the content is
  the five-byte sentinel, and its time of modification is set.
\<close>

definition riak_fill_tile :: "'w riak_env \<Rightarrow> riack_content \<Rightarrow> mapcache_tile \<Rightarrow> mapcache_tile" where
  "riak_fill_tile env c0 tile =
     (let tile = tile\<lparr>encoded_data := Some []\<rparr>;
          tile =
            (if content_data c0 ! 0 = CHR ''#'' \<and> length (content_data c0) = 5
                \<and> length blank_content_type = length (content_type_value c0)
                \<and> blank_content_type = content_type_value c0
             then
               (let (buf, nd) = mapcache_empty_png_decode env (tile_sx (grid tile))
                                  (tile_sy (grid tile)) (content_data c0) (nodata tile)
                in tile\<lparr>encoded_data := buf, nodata := nd\<rparr>)
             else tile\<lparr>encoded_data := Some ([] @ content_data c0)\<rparr>);
          tile =
            (if last_modified_present c0 \<and> last_modified_usecs_present c0
             then tile\<lparr>mtime := apr_time_make (last_modified c0) (last_modified_usecs c0)\<rparr>
             else if last_modified_present c0
             then tile\<lparr>mtime := apr_time_make (last_modified c0) 0\<rparr>
             else tile)
      in tile)"

text \<open>\<^verbatim>\<open>_mapcache_cache_riak_get\<close>: the status, the tile and the context.\<close>

definition mapcache_cache_riak_get ::
  "mapcache_h \<Rightarrow> 'w riak_env \<Rightarrow> mapcache_cache_riak \<Rightarrow> mapcache_tile \<Rightarrow> 'w mapcache_context
   \<Rightarrow> int \<times> mapcache_tile \<times> 'w mapcache_context" where
  "mapcache_cache_riak_get K env cache tile ctx =
     (case riak_names env cache tile ctx of
        Inl ctx \<Rightarrow> (MAPCACHE_FAILURE K, tile, ctx)
      | Inr (key, bucket, pbucket_type) \<Rightarrow>
     (case riak_get_connection env cache ctx of
        Inl ctx \<Rightarrow> (MAPCACHE_FAILURE K, tile, ctx)
      | Inr (pc, ctx) \<Rightarrow>
     (case riak_retry env (riak_warn riak_get_fmt key cache)
             (riack_get_ext env pc bucket key (riak_read_properties cache) pbucket_type)
             pc None 3 ctx of
        (Inl error, connect_error, ctx) \<Rightarrow>
          (MAPCACHE_FAILURE K, tile,
           set_error 500 ''Failed to get tile %s from cache %s due to error %d''
             (riak_give_back env pc connect_error ctx))
      | (Inr obj, connect_error, ctx) \<Rightarrow>
          (case object_content obj of
             [] \<Rightarrow> (MAPCACHE_CACHE_MISS K, tile, riak_release env pc ctx)
           | c0 # others \<Rightarrow>
               if length (content_data c0) = 0
               then (MAPCACHE_CACHE_MISS K, tile, riak_release env pc ctx)
               else (MAPCACHE_SUCCESS K, riak_fill_tile env c0 tile, riak_release env pc ctx)))))"

text \<open>\<^verbatim>\<open>_mapcache_cache_riak_has_tile\<close>: \<^verbatim>\<open>MAPCACHE_TRUE\<close> or \<^verbatim>\<open>MAPCACHE_FALSE\<close>, and the context.\<close>

definition mapcache_cache_riak_has_tile ::
  "mapcache_h \<Rightarrow> 'w riak_env \<Rightarrow> mapcache_cache_riak \<Rightarrow> mapcache_tile \<Rightarrow> 'w mapcache_context
   \<Rightarrow> int \<times> 'w mapcache_context" where
  "mapcache_cache_riak_has_tile K env cache tile ctx =
     (case riak_names env cache tile ctx of
        Inl ctx \<Rightarrow> (MAPCACHE_FALSE K, ctx)
      | Inr (key, bucket, pbucket_type) \<Rightarrow>
     (case riak_get_connection env cache ctx of
        Inl ctx \<Rightarrow> (MAPCACHE_FALSE K, ctx)
      | Inr (pc, ctx) \<Rightarrow>
     (case riak_retry env (riak_warn riak_has_tile_fmt key cache)
             (riack_get_ext env pc bucket key (riak_read_properties cache) pbucket_type)
             pc None 3 ctx of
        (Inl error, connect_error, ctx) \<Rightarrow>
          (MAPCACHE_FALSE K,
           set_error 500 ''riak: failed to get key %s: %d''
             (riak_give_back env pc connect_error ctx))
      | (Inr obj, connect_error, ctx) \<Rightarrow>
          (let error = (case object_content obj of
                          [] \<Rightarrow> MAPCACHE_FALSE K
                        | c0 # others \<Rightarrow>
                            if length (content_data c0) = 0 then MAPCACHE_FALSE K
                            else MAPCACHE_TRUE K)
           in (error, riak_release env pc ctx)))))"

subsection \<open>The riak backend: writing a tile\<close>

text \<open>The raw image of the tile, decoded from its encoded data when it has none yet.\<close>

definition riak_raw_image :: "'w riak_env \<Rightarrow> mapcache_tile \<Rightarrow> mapcache_image raised" where
  "riak_raw_image env tile =
     (case raw_image tile of
        Some img \<Rightarrow> Inr img
      | None \<Rightarrow> mapcache_imageio_decode env (encoded_data tile))"

text \<open>
  The block of \<^verbatim>\<open>_mapcache_cache_riak_set\<close> under the comment \<^verbatim>\<open>// Blank tile detection\<close>. It
  gives the tile, the content type chosen so far and the context, or \<open>Inl\<close> the tile and
  context with which \<^verbatim>\<open>GC_CHECK_ERROR\<close> returns. The sentinel buffer is \<^verbatim>\<open>#\<close> followed by the
  first four bytes of the raw image data (an image has at least one pixel of four bytes).
\<close>

definition riak_detect_blank ::
  "mapcache_h \<Rightarrow> 'w riak_env \<Rightarrow> mapcache_cache_riak \<Rightarrow> mapcache_tile \<Rightarrow> 'w mapcache_context
   \<Rightarrow> (mapcache_tile \<times> 'w mapcache_context)
      + (mapcache_tile \<times> string option \<times> 'w mapcache_context)" where
  "riak_detect_blank K env cache tile ctx =
     (if detect_blank cache \<noteq> 0 then
        (case riak_raw_image env tile of
           Inl (c, m) \<Rightarrow> Inl (tile, set_error c m ctx)
         | Inr img \<Rightarrow>
             (let tile = tile\<lparr>raw_image := Some img\<rparr> in
              if mapcache_image_blank_color env img \<noteq> MAPCACHE_FALSE K
              then Inr (tile\<lparr>encoded_data := Some (CHR ''#'' # take 4 (img_data img))\<rparr>,
                        Some blank_content_type, ctx)
              else Inr (tile, None, ctx)))
      else Inr (tile, None, ctx))"

text \<open>The content type when blank detection has not chosen one.\<close>

definition riak_content_type ::
  "'w riak_env \<Rightarrow> mapcache_tile \<Rightarrow> string option \<Rightarrow> string option" where
  "riak_content_type env tile content_type =
     (let content_type =
            (if content_type = None
             then (case tileset_format tile of None \<Rightarrow> None | Some format \<Rightarrow> mime_type format)
             else content_type)
      in if content_type = None
         then (case mapcache_imageio_header_sniff env (the (encoded_data tile)) of
                 GC_PNG \<Rightarrow> Some ''image/png''
               | GC_JPEG \<Rightarrow> Some ''image/jpeg''
               | GC_UNKNOWN \<Rightarrow> None)
         else content_type)"

text \<open>The object that is put, built under \<^verbatim>\<open>// Set up the riak object to put\<close>.\<close>

definition riak_put_object ::
  "string \<Rightarrow> string \<Rightarrow> string option \<Rightarrow> string \<Rightarrow> riack_object" where
  "riak_put_object bucket key content_type bytes =
     \<lparr>object_bucket = bucket, object_key = key,
      object_content =
        [\<lparr>content_data = bytes,
          content_type_value = (case content_type of None \<Rightarrow> [] | Some s \<Rightarrow> s),
          last_modified_present = False, last_modified = 0,
          last_modified_usecs_present = False, last_modified_usecs = 0\<rparr>]\<rparr>"

text \<open>The call of \<^verbatim>\<open>riack_put_ext\<close> as an attempt of the retry loop.\<close>

definition riak_put_attempt ::
  "'w riak_env \<Rightarrow> nat \<Rightarrow> riack_object \<Rightarrow> string option \<Rightarrow> int option \<Rightarrow> 'w \<Rightarrow> (int + unit) \<times> 'w" where
  "riak_put_attempt env pc object pbucket_type properties w =
     (case riack_put_ext env pc object pbucket_type properties w of
        (None, w') \<Rightarrow> (Inr (), w')
      | (Some error, w') \<Rightarrow> (Inl error, w'))"

text \<open>\<^verbatim>\<open>_mapcache_cache_riak_set\<close>: the tile and the context it leaves.\<close>

definition mapcache_cache_riak_set ::
  "mapcache_h \<Rightarrow> 'w riak_env \<Rightarrow> mapcache_cache_riak \<Rightarrow> mapcache_tile \<Rightarrow> 'w mapcache_context
   \<Rightarrow> mapcache_tile \<times> 'w mapcache_context" where
  "mapcache_cache_riak_set K env cache tile ctx =
     (case riak_names env cache tile ctx of
        Inl ctx \<Rightarrow> (tile, ctx)
      | Inr (key, bucket, pbucket_type) \<Rightarrow>
     (case riak_detect_blank K env cache tile ctx of
        Inl (tile, ctx) \<Rightarrow> (tile, ctx)
      | Inr (tile, content_type, ctx) \<Rightarrow>
     (case (case encoded_data tile of
              Some bytes \<Rightarrow> Inr bytes
            | None \<Rightarrow> format_write env tile) of
        Inl (c, m) \<Rightarrow> (tile, set_error c m ctx)
      | Inr bytes \<Rightarrow>
     (let tile = tile\<lparr>encoded_data := Some bytes\<rparr>;
          content_type = riak_content_type env tile content_type
      in case riak_get_connection env cache ctx of
           Inl ctx \<Rightarrow> (tile, ctx)
         | Inr (pc, ctx) \<Rightarrow>
     (case riak_retry env (riak_warn riak_set_fmt key cache)
             (riak_put_attempt env pc (riak_put_object bucket key content_type bytes)
                pbucket_type (riak_write_properties cache))
             pc None 3 ctx of
        (Inl error, connect_error, ctx) \<Rightarrow>
          (tile, set_error 500 ''failed to store tile %s to cache %s due to error %d.''
                   (riak_give_back env pc connect_error ctx))
      | (Inr u, connect_error, ctx) \<Rightarrow> (tile, riak_give_back env pc connect_error ctx))))))"

subsection \<open>The empty-png decoder\<close>

text \<open>
  Modelled from the spec: \<^verbatim>\<open>mapcache_empty_png_decode\<close> (the image part of the library is not
  among the source files). Sections 3, 4.F and 8: a blank tile is stored as \<^verbatim>\<open>#\<close> and four
  colour bytes and, on read, is expanded back to a blank tile of the grid's tile size,
  encoded via the empty-png pipeline, with \<^verbatim>\<open>nodata\<close>, the flag that means that the tile is
  blank, set. The encoder of that pipeline is the parameter \<open>blank_png\<close>: the bytes of a
  tile of a width, a height and a colour.
\<close>

definition empty_png_decode_spec ::
  "(int \<Rightarrow> int \<Rightarrow> string \<Rightarrow> string) \<Rightarrow> int \<Rightarrow> int \<Rightarrow> string \<Rightarrow> int \<Rightarrow> string option \<times> int" where
  "empty_png_decode_spec blank_png width height hex_color nd =
     (Some (blank_png width height (take 4 (drop 1 hex_color))), 1)"

subsection \<open>An example riak server\<close>

text \<open>
  A world that is a riak server without faults: the contents stored under each bucket
  and key, none for a key never written. A get fetches the object of a key with its
  contents, a put replaces them, and every connection works. Keys are the template itself,
  a raw image counts as blank when all its pixels are equal, and the empty-png decoder is
  the one of the spec over a stand-in encoder, which yields the marker \<^verbatim>\<open>blank\<close> followed by
  the four colour bytes.
\<close>

type_synonym riak_world = "string \<times> string \<Rightarrow> riack_content list"

fun all_pixels :: "string \<Rightarrow> string \<Rightarrow> bool" where
  "all_pixels p [] = True"
| "all_pixels p (a # b # c # d # rest) = ([a, b, c, d] = p \<and> all_pixels p rest)"
| "all_pixels p rest = False"

definition uniform_pixels :: "string \<Rightarrow> bool" where
  "uniform_pixels bytes = all_pixels (take 4 bytes) bytes"

definition example_blank_png :: "int \<Rightarrow> int \<Rightarrow> string \<Rightarrow> string" where
  "example_blank_png width height colour = ''blank'' @ colour"

definition example_riak :: "mapcache_h \<Rightarrow> riak_world riak_env" where
  "example_riak K =
     \<lparr>mapcache_util_get_tile_key = (\<lambda>tile template. Inr template),
      mapcache_connection_pool_get_connection = (\<lambda>name w. (Inr 0, w)),
      mapcache_connection_pool_release_connection = (\<lambda>pc w. w),
      mapcache_connection_pool_invalidate_connection = (\<lambda>pc w. w),
      riack_get_ext = (\<lambda>pc bucket key properties pbucket_type w.
        (Inr \<lparr>object_bucket = bucket, object_key = key, object_content = w (bucket, key)\<rparr>, w)),
      riack_put_ext = (\<lambda>pc object pbucket_type properties w.
        (None, w((object_bucket object, object_key object) := object_content object))),
      riack_reconnect = (\<lambda>pc w. (None, w)),
      mapcache_imageio_decode = (\<lambda>bytes. Inl (500, ''failed to decode image'')),
      mapcache_image_blank_color = (\<lambda>img.
        if uniform_pixels (img_data img) then MAPCACHE_TRUE K else MAPCACHE_FALSE K),
      format_write = (\<lambda>tile. Inl (500, ''no format to encode with'')),
      mapcache_imageio_header_sniff = (\<lambda>bytes. GC_UNKNOWN),
      mapcache_empty_png_decode = empty_png_decode_spec example_blank_png\<rparr>"

definition riak_cache_blank :: mapcache_cache_riak where
  "riak_cache_blank =
     \<lparr>riak_name = ''riak'', key_template = ''l-3-4-5'', bucket_template = ''tiles'',
      bucket_type_template = None, riak_r = 0, riak_w = 0, detect_blank = 1\<rparr>"

text \<open>
  A tile whose raw image is two transparent pixels, a server that holds nothing, and a
  server that holds an object without content data under the key of the tile.
\<close>

definition transparent_tile :: mapcache_tile where
  "transparent_tile =
     tile345\<lparr>raw_image :=
       Some \<lparr>img_w = 2, img_h = 1,
             img_data = [CHR 0x00, CHR 0x00, CHR 0x00, CHR 0x00,
                         CHR 0x00, CHR 0x00, CHR 0x00, CHR 0x00]\<rparr>\<rparr>"

definition ctx_riak_empty :: "riak_world mapcache_context" where
  "ctx_riak_empty = \<lparr>ctx_error = None, ctx_log = [], world = (\<lambda>bk. [])\<rparr>"

definition ctx_riak_hollow :: "riak_world mapcache_context" where
  "ctx_riak_hollow =
     \<lparr>ctx_error = None, ctx_log = [],
      world = (\<lambda>bk. if bk = (''tiles'', ''l-3-4-5'')
                     then [\<lparr>content_data = [], content_type_value = ''image/png'',
                            last_modified_present = False, last_modified = 0,
                            last_modified_usecs_present = False, last_modified_usecs = 0\<rparr>]
                     else [])\<rparr>"

text \<open>The five bytes that stand for a transparent blank tile, and the empty server after
  these bytes have been put under the key of the tile.\<close>

definition transparent_sentinel :: string where
  "transparent_sentinel = [CHR ''#'', CHR 0x00, CHR 0x00, CHR 0x00, CHR 0x00]"

definition ctx_riak_blank :: "riak_world mapcache_context" where
  "ctx_riak_blank =
     \<lparr>ctx_error = None, ctx_log = [],
      world = (\<lambda>bk. [])((''tiles'', ''l-3-4-5'') :=
                [\<lparr>content_data = transparent_sentinel, content_type_value = blank_content_type,
                  last_modified_present = False, last_modified = 0,
                  last_modified_usecs_present = False, last_modified_usecs = 0\<rparr>])\<rparr>"

section \<open>Properties\<close>

subsection \<open>Merging the per-server configuration\<close>

lemmas server_conf_eval =
  mod_mapcache_merge_server_conf_def mod_mapcache_create_server_conf_def pcalloc_server_cfg_def
  mapcache_set_cp_min_def mapcache_set_cp_smax_def c_or_def

lemma merge_server_conf_values:
  "cp_min (mod_mapcache_merge_server_conf base vhost)
     = (if cp_min_is_set vhost \<noteq> 0 then cp_min vhost else 0)
   \<and> cp_smax (mod_mapcache_merge_server_conf base vhost)
     = (if cp_smax_is_set vhost \<noteq> 0 then cp_smax vhost else 0)
   \<and> cp_hmax (mod_mapcache_merge_server_conf base vhost)
     = (if cp_hmax_is_set vhost \<noteq> 0 then cp_hmax vhost else 0)
   \<and> cp_ttl (mod_mapcache_merge_server_conf base vhost)
     = (if cp_ttl_is_set vhost \<noteq> 0 then cp_ttl vhost else 0)
   \<and> cp_sharing (mod_mapcache_merge_server_conf base vhost)
     = (if cp_sharing_is_set vhost \<noteq> 0 then cp_sharing vhost else 0)"
  by (simp add: server_conf_eval)

lemma merge_server_conf_is_set:
  "cp_min_is_set (mod_mapcache_merge_server_conf base vhost)
     = (if cp_min_is_set vhost \<noteq> 0 then 1 else 0)
   \<and> cp_smax_is_set (mod_mapcache_merge_server_conf base vhost)
     = (if cp_smax_is_set vhost \<noteq> 0 then 1 else 0)
   \<and> cp_hmax_is_set (mod_mapcache_merge_server_conf base vhost)
     = (if cp_hmax_is_set vhost \<noteq> 0 then 1 else 0)
   \<and> cp_ttl_is_set (mod_mapcache_merge_server_conf base vhost)
     = (if cp_ttl_is_set vhost \<noteq> 0 then 1 else 0)
   \<and> cp_sharing_is_set (mod_mapcache_merge_server_conf base vhost)
     = (if cp_sharing_is_set vhost \<noteq> 0 then 1 else 0)"
  by (simp add: server_conf_eval)

text \<open>
  C6 does not hold of the code. The base configuration sets
  \<^verbatim>\<open>MapCacheConnectionPoolSMax 10\<close>, the virtual host sets no pool option. The claim asks
  for a merged soft maximum of 10 with its is-set bit on, and for the defaults 1, 200 and
  60 in the options nobody set. The merge reads the freshly zeroed result where it should
  read \<^verbatim>\<open>base\<close>, so every option the virtual host did not set is 0 and its is-set bit is off.
\<close>

theorem merge_server_conf_drops_base:
  "cp_smax (mapcache_set_cp_smax 10 mod_mapcache_create_server_conf) = 10
   \<and> cp_smax_is_set (mapcache_set_cp_smax 10 mod_mapcache_create_server_conf) = 1
   \<and> cp_smax_is_set mod_mapcache_create_server_conf = 0
   \<and> cp_smax (mod_mapcache_merge_server_conf
                (mapcache_set_cp_smax 10 mod_mapcache_create_server_conf)
                mod_mapcache_create_server_conf) = 0
   \<and> cp_smax_is_set (mod_mapcache_merge_server_conf
                       (mapcache_set_cp_smax 10 mod_mapcache_create_server_conf)
                       mod_mapcache_create_server_conf) = 0
   \<and> cp_min (mod_mapcache_merge_server_conf
               (mapcache_set_cp_smax 10 mod_mapcache_create_server_conf)
               mod_mapcache_create_server_conf) = 0
   \<and> cp_hmax (mod_mapcache_merge_server_conf
                (mapcache_set_cp_smax 10 mod_mapcache_create_server_conf)
                mod_mapcache_create_server_conf) = 0
   \<and> cp_ttl (mod_mapcache_merge_server_conf
               (mapcache_set_cp_smax 10 mod_mapcache_create_server_conf)
               mod_mapcache_create_server_conf) = 0"
  by (simp add: server_conf_eval)

subsection \<open>Names of lock files and memcache lock keys\<close>

lemma disk_saferes_map:
  "disk_saferes resource =
     map (\<lambda>c. if c \<in> {CHR '' '', CHR ''/'', CHR ''~'', CHR ''.''} then CHR ''#'' else c) resource"
  by (induction resource) simp_all

lemma memcache_saferes_map:
  "memcache_saferes resource = map (\<lambda>c. if c \<in> unsafe_chars then CHR ''#'' else c) resource"
  by (induction resource) (simp_all add: unsafe_chars_def)

text \<open>
  C4, as the claim states it, fails for the disk lock file: a line feed in the resource
  is one of the characters the claim lists, and it is still in the canonical part of the
  lock file name.
\<close>

theorem lock_filename_counterexample:
  "CHR 0x0A \<in> unsafe_chars
   \<and> CHR 0x0A \<in> set (disk_saferes [CHR ''a'', CHR 0x0A, CHR ''b''])
   \<and> lock_filename_for_resource ''/tmp'' [CHR ''a'', CHR 0x0A, CHR ''b'']
       = ''/tmp/_gc_lock'' @ [CHR ''a'', CHR 0x0A, CHR ''b''] @ ''.lck''"
  by (simp add: unsafe_chars_def lock_filename_for_resource_def MAPCACHE_LOCKFILE_PREFIX_def)

text \<open>
  C4, amended. The canonical name in a memcache lock key is the resource with every
  character of the eleven listed replaced by \<^verbatim>\<open>#\<close>, so it contains none of them. The
  canonical name in a disk lock file name is the resource with space, \<^verbatim>\<open>/\<close>, \<^verbatim>\<open>~\<close> and \<^verbatim>\<open>.\<close>
  replaced by \<^verbatim>\<open>#\<close>, so it contains none of these four; the control characters stay. The
  lock file name is the directory, \<^verbatim>\<open>/_gc_lock\<close>, the canonical name and \<^verbatim>\<open>.lck\<close>; the memcache
  key is the prefix (empty when none is configured), \<^verbatim>\<open>_gc_lock\<close>, the canonical name and
  \<^verbatim>\<open>.lck\<close>.
\<close>

theorem lock_names_canonical:
  "set (memcache_saferes resource) \<inter> unsafe_chars = {}
   \<and> memcache_saferes resource = map (\<lambda>c. if c \<in> unsafe_chars then CHR ''#'' else c) resource
   \<and> set (disk_saferes resource) \<inter> {CHR '' '', CHR ''/'', CHR ''~'', CHR ''.''} = {}
   \<and> disk_saferes resource =
       map (\<lambda>c. if c \<in> {CHR '' '', CHR ''/'', CHR ''~'', CHR ''.''} then CHR ''#'' else c) resource
   \<and> lock_filename_for_resource dir resource = dir @ ''/_gc_lock'' @ disk_saferes resource @ ''.lck''
   \<and> memcache_key_for_resource (Some prefix) resource
       = prefix @ ''_gc_lock'' @ memcache_saferes resource @ ''.lck''
   \<and> memcache_key_for_resource None resource = ''_gc_lock'' @ memcache_saferes resource @ ''.lck''"
proof -
  have "set (memcache_saferes resource) \<inter> unsafe_chars = {}"
    by (induction resource) (simp_all add: unsafe_chars_def)
  moreover have "set (disk_saferes resource) \<inter> {CHR '' '', CHR ''/'', CHR ''~'', CHR ''.''} = {}"
    by (induction resource) simp_all
  ultimately show ?thesis
    using disk_saferes_map [of resource] memcache_saferes_map [of resource]
    by (simp add: lock_filename_for_resource_def memcache_key_for_resource_def
        MAPCACHE_LOCKFILE_PREFIX_def)
qed

text \<open>
  The amended C4 on the resource \<^verbatim>\<open>osm grid/3.4\<close> followed by a tab: both names
  replace the space, the slash and the dot; only the memcache key replaces the tab.
\<close>

theorem lock_names_canonical_witness:
  "lock_filename_for_resource ''/tmp'' (''osm grid/3.4'' @ [CHR 0x09])
     = ''/tmp/_gc_lockosm#grid#3#4'' @ [CHR 0x09] @ ''.lck''
   \<and> memcache_key_for_resource (Some ''mc'') (''osm grid/3.4'' @ [CHR 0x09])
       = ''mc_gc_lockosm#grid#3#4#.lck''
   \<and> set (memcache_saferes (''osm grid/3.4'' @ [CHR 0x09])) \<inter> unsafe_chars = {}"
  using lock_names_canonical [of "''osm grid/3.4'' @ [CHR 0x09]" "''/tmp''" "''mc''"]
  by (simp add: unsafe_chars_def)

subsection \<open>Forwarding headers of proxied requests\<close>

lemma strcaseeq_trans: "strcaseeq a b \<Longrightarrow> strcaseeq b c \<Longrightarrow> strcaseeq a c"
  by (simp add: strcaseeq_def)

lemma strcaseeq_sym: "strcaseeq a b \<Longrightarrow> strcaseeq b a"
  by (simp add: strcaseeq_def)

lemma apr_table_get_filter:
  "\<not> strcaseeq key key' \<Longrightarrow>
   apr_table_get (filter (\<lambda>(k, v). \<not> strcaseeq k key) t) key' = apr_table_get t key'"
proof (induction t)
  case Nil
  then show ?case by simp
next
  case (Cons e t)
  obtain k v where e: "e = (k, v)" by (cases e)
  show ?case
  proof (cases "strcaseeq k key")
    case True
    with Cons.prems have "\<not> strcaseeq k key'"
      using strcaseeq_trans [of key k key'] strcaseeq_sym [of k key] by blast
    with True e Cons show ?thesis by simp
  next
    case False
    with e Cons show ?thesis by simp
  qed
qed

lemma apr_table_get_set:
  "apr_table_get (apr_table_set t key val) key' =
     (if strcaseeq key key' then val else apr_table_get t key')"
proof (induction t)
  case Nil
  then show ?case by simp
next
  case (Cons e t)
  obtain k v where e: "e = (k, v)" by (cases e)
  show ?case
  proof (cases "strcaseeq k key")
    case True
    then have "strcaseeq k key' \<longleftrightarrow> strcaseeq key key'"
      using strcaseeq_trans [of k key key'] strcaseeq_trans [of key k key']
        strcaseeq_sym [of k key] by blast
    with True e show ?thesis
      by (simp add: apr_table_get_filter)
  next
    case False
    then have "strcaseeq key key' \<Longrightarrow> \<not> strcaseeq k key'"
      using strcaseeq_trans [of k key' key] strcaseeq_sym [of key key'] by blast
    with False e Cons show ?thesis by simp
  qed
qed

lemma header_names_differ:
  "\<not> strcaseeq ''X-Forwarded-Server'' ''X-Forwarded-For''"
  "\<not> strcaseeq ''X-Forwarded-Server'' ''X-Forwarded-Host''"
  "\<not> strcaseeq ''X-Forwarded-Host'' ''X-Forwarded-For''"
  "strcaseeq ''X-Forwarded-For'' ''X-Forwarded-For''"
  "strcaseeq ''X-Forwarded-Host'' ''X-Forwarded-Host''"
  "strcaseeq ''X-Forwarded-Server'' ''X-Forwarded-Server''"
  by (simp_all add: strcaseeq_def c_tolower_def)

lemmas proxy_eval =
  mod_mapcache_request_handler_proxy_def forwarded_header_def read_empty_body_def
  get_request_def post_request_def put_request_def fresh_proxy_request_def fresh_ctx_def
  GC_HAS_ERROR_def strcaseeq_def c_tolower_def

text \<open>
  C7, as the claim states it, fails for GET: the handler hands the proxy request of a GET
  to the core as it is, and it carries no \<^verbatim>\<open>X-Forwarded-For\<close> header although the client
  has an address.
\<close>

theorem proxy_get_counterexample:
  "handler get_request = Some ''mapcache'' \<and> method_number get_request = M_GET
   \<and> mod_mapcache_request_handler_proxy read_empty_body get_request fresh_proxy_request fresh_ctx
       = (Core_proxy_request fresh_proxy_request, fresh_ctx)
   \<and> forwarded_header fresh_proxy_request ''X-Forwarded-For'' = None
   \<and> forwarded_header fresh_proxy_request ''X-Forwarded-For'' \<noteq> Some (client_ip get_request)"
  by (simp add: proxy_eval)

text \<open>
  C7, amended. The requests are those that reach the handler as its own (\<^verbatim>\<open>r->handler\<close> is
  \<^verbatim>\<open>mapcache\<close>) and are dispatched as proxy requests. For every such POST request whose body
  was read without error, the forwarded request carries an \<^verbatim>\<open>X-Forwarded-For\<close> header equal
  to the inbound one with the client address appended after a comma and a space, or to the
  client address alone when there was none; when the request has a \<^verbatim>\<open>Host\<close> header, an
  \<^verbatim>\<open>X-Forwarded-Host\<close> header built in the same way from the inbound \<^verbatim>\<open>X-Forwarded-Host\<close> and
  the \<^verbatim>\<open>Host\<close>; and an \<^verbatim>\<open>X-Forwarded-Server\<close> header built in the same way from the serving
  host name. For a GET request the handler forwards the proxy request unchanged. A request
  of any other method is not forwarded: the handler returns \<^verbatim>\<open>HTTP_METHOD_NOT_ALLOWED\<close>
  before it looks at the request.
\<close>

theorem proxy_post_forwarded_headers:
  "(handler r = Some ''mapcache'' \<and> method_number r = M_GET \<longrightarrow>
      mod_mapcache_request_handler_proxy read_post_body r p ctx = (Core_proxy_request p, ctx))
   \<and> (handler r = Some ''mapcache'' \<and> method_number r \<noteq> M_GET \<and> method_number r \<noteq> M_POST \<longrightarrow>
        mod_mapcache_request_handler_proxy read_post_body r p ctx = (HTTP_METHOD_NOT_ALLOWED, ctx))
   \<and> (handler r = Some ''mapcache'' \<and> method_number r = M_POST
        \<and> \<not> GC_HAS_ERROR (snd (read_post_body r p ctx)) \<longrightarrow>
        (\<exists>fwd. mod_mapcache_request_handler_proxy read_post_body r p ctx
                 = (Core_proxy_request fwd, snd (read_post_body r p ctx))
           \<and> forwarded_header fwd ''X-Forwarded-For''
               = Some (case apr_table_get (headers_in r) ''X-Forwarded-For'' of
                         Some buf \<Rightarrow> buf @ '', '' @ client_ip r
                       | None \<Rightarrow> client_ip r)
           \<and> (\<forall>host. apr_table_get (headers_in r) ''Host'' = Some host \<longrightarrow>
                 forwarded_header fwd ''X-Forwarded-Host''
                   = Some (case apr_table_get (headers_in r) ''X-Forwarded-Host'' of
                             Some buf2 \<Rightarrow> buf2 @ '', '' @ host
                           | None \<Rightarrow> host))
           \<and> forwarded_header fwd ''X-Forwarded-Server''
               = Some (case apr_table_get (headers_in r) ''X-Forwarded-Server'' of
                         Some buf \<Rightarrow> buf @ '', '' @ server_hostname r
                       | None \<Rightarrow> server_hostname r)))"
proof (intro conjI impI)
  assume "handler r = Some ''mapcache'' \<and> method_number r = M_GET"
  then show "mod_mapcache_request_handler_proxy read_post_body r p ctx
             = (Core_proxy_request p, ctx)"
    by (simp add: mod_mapcache_request_handler_proxy_def)
next
  assume "handler r = Some ''mapcache'' \<and> method_number r \<noteq> M_GET \<and> method_number r \<noteq> M_POST"
  then show "mod_mapcache_request_handler_proxy read_post_body r p ctx
             = (HTTP_METHOD_NOT_ALLOWED, ctx)"
    by (simp add: mod_mapcache_request_handler_proxy_def)
next
  assume a: "handler r = Some ''mapcache'' \<and> method_number r = M_POST
             \<and> \<not> GC_HAS_ERROR (snd (read_post_body r p ctx))"
  then have own: "handler r = Some ''mapcache''" and post: "method_number r = M_POST"
    by simp_all
  obtain p' ctx' where rb: "read_post_body r p ctx = (p', ctx')"
    by (cases "read_post_body r p ctx")
  with a have ok: "\<not> GC_HAS_ERROR ctx'"
    by simp
  show "\<exists>fwd. mod_mapcache_request_handler_proxy read_post_body r p ctx
                = (Core_proxy_request fwd, snd (read_post_body r p ctx))
          \<and> forwarded_header fwd ''X-Forwarded-For''
              = Some (case apr_table_get (headers_in r) ''X-Forwarded-For'' of
                        Some buf \<Rightarrow> buf @ '', '' @ client_ip r
                      | None \<Rightarrow> client_ip r)
          \<and> (\<forall>host. apr_table_get (headers_in r) ''Host'' = Some host \<longrightarrow>
                forwarded_header fwd ''X-Forwarded-Host''
                  = Some (case apr_table_get (headers_in r) ''X-Forwarded-Host'' of
                            Some buf2 \<Rightarrow> buf2 @ '', '' @ host
                          | None \<Rightarrow> host))
          \<and> forwarded_header fwd ''X-Forwarded-Server''
              = Some (case apr_table_get (headers_in r) ''X-Forwarded-Server'' of
                        Some buf \<Rightarrow> buf @ '', '' @ server_hostname r
                      | None \<Rightarrow> server_hostname r)"
  proof -
    define hs1 where
      "hs1 = apr_table_set (case proxy_headers p' of None \<Rightarrow> [] | Some h \<Rightarrow> h)
               ''Content-Type'' (req_content_type r)"
    define xff where
      "xff = (case apr_table_get (headers_in r) ''X-Forwarded-For'' of
                Some buf \<Rightarrow> buf @ '', '' @ client_ip r | None \<Rightarrow> client_ip r)"
    define hs2 where "hs2 = apr_table_set hs1 ''X-Forwarded-For'' (Some xff)"
    define xfh where
      "xfh = (\<lambda>host. case apr_table_get (headers_in r) ''X-Forwarded-Host'' of
                Some buf2 \<Rightarrow> buf2 @ '', '' @ host | None \<Rightarrow> host)"
    define hs3 where
      "hs3 = (case apr_table_get (headers_in r) ''Host'' of
                Some host \<Rightarrow> apr_table_set hs2 ''X-Forwarded-Host'' (Some (xfh host))
              | None \<Rightarrow> hs2)"
    define xfs where
      "xfs = (case apr_table_get (headers_in r) ''X-Forwarded-Server'' of
                Some buf \<Rightarrow> buf @ '', '' @ server_hostname r | None \<Rightarrow> server_hostname r)"
    define hs4 where "hs4 = apr_table_set hs3 ''X-Forwarded-Server'' (Some xfs)"
    define fwd where "fwd = p'\<lparr>proxy_headers := Some hs4\<rparr>"
    have s2: "(case apr_table_get (headers_in r) ''X-Forwarded-For'' of
                 Some buf \<Rightarrow> apr_table_set hs1 ''X-Forwarded-For'' (Some (buf @ '', '' @ client_ip r))
               | None \<Rightarrow> apr_table_set hs1 ''X-Forwarded-For'' (Some (client_ip r))) = hs2"
      unfolding hs2_def xff_def by (simp split: option.splits)
    have s3: "(case apr_table_get (headers_in r) ''Host'' of
                 Some buf \<Rightarrow>
                   (case apr_table_get (headers_in r) ''X-Forwarded-Host'' of
                      Some buf2 \<Rightarrow> apr_table_set hs2 ''X-Forwarded-Host'' (Some (buf2 @ '', '' @ buf))
                    | None \<Rightarrow> apr_table_set hs2 ''X-Forwarded-Host'' (Some buf))
               | None \<Rightarrow> hs2) = hs3"
      unfolding hs3_def xfh_def by (simp split: option.splits)
    have s4: "(case apr_table_get (headers_in r) ''X-Forwarded-Server'' of
                 Some buf \<Rightarrow>
                   apr_table_set hs3 ''X-Forwarded-Server'' (Some (buf @ '', '' @ server_hostname r))
               | None \<Rightarrow> apr_table_set hs3 ''X-Forwarded-Server'' (Some (server_hostname r))) = hs4"
      unfolding hs4_def xfs_def by (simp split: option.splits)
    have guards: "\<not> (handler r = None \<or> handler r \<noteq> Some ''mapcache'')"
      "\<not> (method_number r \<noteq> M_GET \<and> method_number r \<noteq> M_POST)"
      using own post by simp_all
    have res: "mod_mapcache_request_handler_proxy read_post_body r p ctx
               = (Core_proxy_request fwd, ctx')"
      unfolding mod_mapcache_request_handler_proxy_def Let_def
      using post rb ok
      by (simp only: guards if_True if_False prod.case hs1_def [symmetric] s2 s3 s4 fwd_def
            simp_thms)
    have g2: "apr_table_get hs2 ''X-Forwarded-For'' = Some xff"
      unfolding hs2_def by (simp add: apr_table_get_set header_names_differ)
    have g3: "apr_table_get hs3 ''X-Forwarded-For'' = Some xff"
      unfolding hs3_def using g2
      by (simp add: apr_table_get_set header_names_differ split: option.splits)
    have ffor: "forwarded_header fwd ''X-Forwarded-For'' = Some xff"
      unfolding forwarded_header_def fwd_def hs4_def using g3
      by (simp add: apr_table_get_set header_names_differ)
    have host: "forwarded_header fwd ''X-Forwarded-Host'' = Some (xfh host)"
      if "apr_table_get (headers_in r) ''Host'' = Some host" for host
      unfolding forwarded_header_def fwd_def hs4_def hs3_def using that
      by (simp add: apr_table_get_set header_names_differ)
    have server: "forwarded_header fwd ''X-Forwarded-Server'' = Some xfs"
      unfolding forwarded_header_def fwd_def hs4_def
      by (simp add: apr_table_get_set header_names_differ)
    from res ffor host server rb show ?thesis
      unfolding xff_def xfh_def xfs_def by auto
  qed
qed

text \<open>
  The amended C7 on a POST that came through a proxy: the client address is appended to
  the inbound \<^verbatim>\<open>x-forwarded-for\<close>, the \<^verbatim>\<open>Host\<close> to the inbound \<^verbatim>\<open>X-Forwarded-Host\<close>, and the
  serving host name stands alone. And on a PUT, which is not forwarded.
\<close>

theorem proxy_post_forwarded_headers_witness:
  "handler post_request = Some ''mapcache'' \<and> method_number post_request = M_POST
   \<and> \<not> GC_HAS_ERROR (snd (read_empty_body post_request fresh_proxy_request fresh_ctx))
   \<and> (\<exists>fwd. mod_mapcache_request_handler_proxy read_empty_body post_request fresh_proxy_request
               fresh_ctx = (Core_proxy_request fwd, fresh_ctx)
         \<and> forwarded_header fwd ''X-Forwarded-For'' = Some ''10.0.0.1, 192.0.2.7''
         \<and> forwarded_header fwd ''X-Forwarded-Host'' = Some ''front.example.org, maps.example.org''
         \<and> forwarded_header fwd ''X-Forwarded-Server'' = Some ''tiles01'')
   \<and> handler put_request = Some ''mapcache'' \<and> method_number put_request = M_PUT
   \<and> mod_mapcache_request_handler_proxy read_empty_body put_request fresh_proxy_request fresh_ctx
       = (HTTP_METHOD_NOT_ALLOWED, fresh_ctx)"
proof -
  have own: "handler post_request = Some ''mapcache''"
    and post: "method_number post_request = M_POST"
    by (simp_all add: post_request_def)
  have ok: "\<not> GC_HAS_ERROR (snd (read_empty_body post_request fresh_proxy_request fresh_ctx))"
    by (simp add: read_empty_body_def GC_HAS_ERROR_def fresh_ctx_def)
  have inb: "apr_table_get (headers_in post_request) ''X-Forwarded-For'' = Some ''10.0.0.1''"
    "apr_table_get (headers_in post_request) ''Host'' = Some ''maps.example.org''"
    "apr_table_get (headers_in post_request) ''X-Forwarded-Host'' = Some ''front.example.org''"
    "apr_table_get (headers_in post_request) ''X-Forwarded-Server'' = None"
    by (simp_all add: post_request_def strcaseeq_def c_tolower_def)
  have ctx: "snd (read_empty_body post_request fresh_proxy_request fresh_ctx) = fresh_ctx"
    by (simp add: read_empty_body_def)
  have req: "client_ip post_request = ''192.0.2.7''" "server_hostname post_request = ''tiles01''"
    by (simp_all add: post_request_def)
  have put: "handler put_request = Some ''mapcache''" "method_number put_request = M_PUT"
    by (simp_all add: put_request_def get_request_def)
  from proxy_post_forwarded_headers [of post_request read_empty_body fresh_proxy_request fresh_ctx]
    own post ok
  obtain fwd where
    "mod_mapcache_request_handler_proxy read_empty_body post_request fresh_proxy_request fresh_ctx
       = (Core_proxy_request fwd, fresh_ctx)"
    "forwarded_header fwd ''X-Forwarded-For'' = Some ''10.0.0.1, 192.0.2.7''"
    "forwarded_header fwd ''X-Forwarded-Host'' = Some ''front.example.org, maps.example.org''"
    "forwarded_header fwd ''X-Forwarded-Server'' = Some ''tiles01''"
    unfolding inb ctx req by auto
  moreover
  from proxy_post_forwarded_headers [of put_request read_empty_body fresh_proxy_request fresh_ctx]
    put
  have "mod_mapcache_request_handler_proxy read_empty_body put_request fresh_proxy_request
          fresh_ctx = (HTTP_METHOD_NOT_ALLOWED, fresh_ctx)"
    by simp
  ultimately show ?thesis
    using own post ok put by blast
qed
subsection \<open>The multitier cache: promotion on a secondary hit\<close>













lemmas multitier_eval =
  mapcache_cache_multitier_tile_get_def multitier_get_status_def multitier_secondary.simps
  multitier_transfer_body_def log_transferring_def log_got_from_secondary_def tier_contains_def
  multitier_ro_mem_def multitier_mem_mem_def multitier_mem_down_def
  readonly_cache_def mem_cache_def down_cache_def mem_get_def mem_set_def tile_pos_of_def
  tile345_def ctx_tier1_only_def ctx_empty_def mapcache_h_values_def
  clear_errors_def set_error_def ctx_log_line_def




subsection \<open>The multitier cache: failures and misses\<close>

lemma secondary_status:
  assumes "MAPCACHE_SUCCESS K \<noteq> MAPCACHE_CACHE_MISS K"
  shows "fst (multitier_secondary K cs i tile ctx) =
         (if no_success K (drop i cs) tile ctx then MAPCACHE_CACHE_MISS K else MAPCACHE_SUCCESS K)"
proof (induction K cs i tile ctx rule: multitier_secondary.induct)
  case (1 K cs i tile ctx)
  show ?case
  proof (cases "i < length cs")
    case False
    then show ?thesis by (subst multitier_secondary.simps) simp
  next
    case True
    then have d: "drop i cs = cs ! i # drop (Suc i) cs"
      by (simp add: Cons_nth_drop_Suc)
    obtain r t1 c1 where g: "tile_get (cs ! i) tile ctx = (r, t1, c1)"
      by (cases "tile_get (cs ! i) tile ctx")
    show ?thesis
    proof (cases "r = MAPCACHE_SUCCESS K")
      case True
      with \<open>i < length cs\<close> g d show ?thesis
        by (subst multitier_secondary.simps) (simp add: Let_def split: prod.splits)
    next
      case False
      with \<open>i < length cs\<close> g d "1.IH" [of "cs ! i" "(r, t1, c1)" r "(t1, c1)" t1 c1]
      show ?thesis
        by (subst multitier_secondary.simps) simp
    qed
  qed
qed

lemma all_miss_no_success:
  "MAPCACHE_SUCCESS K \<noteq> MAPCACHE_CACHE_MISS K \<Longrightarrow> all_miss K cs tile ctx \<noteq> None
   \<Longrightarrow> no_success K cs tile ctx"
  by (induction cs arbitrary: tile ctx) (auto split: prod.splits if_splits)

text \<open>
  C2, as the claim states it, fails. Over an empty first tier and a second tier that is
  down, tier 0 answers with a miss and tier 1, consulted next, with a failure; the read
  of the multitier cache returns \<^verbatim>\<open>MAPCACHE_CACHE_MISS\<close>, not \<^verbatim>\<open>MAPCACHE_FAILURE\<close>, although not
  every tier returned a miss.
\<close>

theorem multitier_failure_counterexample:
  "tile_get (caches multitier_mem_down ! 0) tile345 ctx_empty
     = (MAPCACHE_CACHE_MISS mapcache_h_values, tile345, ctx_empty)
   \<and> fst (tile_get (caches multitier_mem_down ! 1) tile345 ctx_empty)
       = MAPCACHE_FAILURE mapcache_h_values
   \<and> MAPCACHE_FAILURE mapcache_h_values \<noteq> MAPCACHE_CACHE_MISS mapcache_h_values
   \<and> multitier_get_status mapcache_h_values multitier_mem_down tile345 ctx_empty
       = Some (MAPCACHE_CACHE_MISS mapcache_h_values)"
  by (simp add: multitier_eval)

text \<open>
  C2, amended. The read of a multitier cache returns what tier 0 returns whenever that is
  not a miss, so a failure of tier 0 is surfaced. When tier 0 misses, the read returns
  \<^verbatim>\<open>MAPCACHE_SUCCESS\<close> if one of the deeper tiers, consulted in order, answers with a success,
  and \<^verbatim>\<open>MAPCACHE_CACHE_MISS\<close> otherwise: a failure of a deeper tier is passed over like a
  miss. Hence the read returns \<^verbatim>\<open>MAPCACHE_FAILURE\<close> exactly when tier 0 does, and it returns
  \<^verbatim>\<open>MAPCACHE_CACHE_MISS\<close> whenever every tier returns a miss.
\<close>

theorem multitier_get_failure_and_miss:
  assumes codes: "MAPCACHE_SUCCESS K \<noteq> MAPCACHE_CACHE_MISS K"
      "MAPCACHE_FAILURE K \<noteq> MAPCACHE_CACHE_MISS K" "MAPCACHE_FAILURE K \<noteq> MAPCACHE_SUCCESS K"
    and cs: "caches m = c # rest"
    and first: "tile_get c tile ctx = (ret, t1, c1)"
  shows "multitier_get_status K m tile ctx =
           Some (if ret \<noteq> MAPCACHE_CACHE_MISS K then ret
                 else if no_success K rest t1 c1 then MAPCACHE_CACHE_MISS K
                 else MAPCACHE_SUCCESS K)
         \<and> (ret \<noteq> MAPCACHE_CACHE_MISS K \<longrightarrow>
              mapcache_cache_multitier_tile_get K m tile ctx = Some (ret, t1, c1))
         \<and> (multitier_get_status K m tile ctx = Some (MAPCACHE_FAILURE K)
              \<longleftrightarrow> ret = MAPCACHE_FAILURE K)
         \<and> (all_miss K (caches m) tile ctx \<noteq> None \<longrightarrow>
              multitier_get_status K m tile ctx = Some (MAPCACHE_CACHE_MISS K))"
proof -
  have status: "multitier_get_status K m tile ctx =
           Some (if ret \<noteq> MAPCACHE_CACHE_MISS K then ret
                 else if no_success K rest t1 c1 then MAPCACHE_CACHE_MISS K
                 else MAPCACHE_SUCCESS K)"
  proof -
    obtain r2 t2 c2 where sec: "multitier_secondary K (c # rest) 1 t1 c1 = (r2, t2, c2)"
      by (cases "multitier_secondary K (c # rest) 1 t1 c1")
    with secondary_status [OF codes(1), of "c # rest" 1 t1 c1]
    have "r2 = (if no_success K rest t1 c1 then MAPCACHE_CACHE_MISS K else MAPCACHE_SUCCESS K)"
      by simp
    with sec cs first show ?thesis
      by (simp add: multitier_get_status_def mapcache_cache_multitier_tile_get_def)
  qed
  moreover have "ret \<noteq> MAPCACHE_CACHE_MISS K \<Longrightarrow>
              mapcache_cache_multitier_tile_get K m tile ctx = Some (ret, t1, c1)"
    using cs first by (simp add: mapcache_cache_multitier_tile_get_def)
  moreover have "multitier_get_status K m tile ctx = Some (MAPCACHE_FAILURE K)
              \<longleftrightarrow> ret = MAPCACHE_FAILURE K"
    using status codes by auto
  moreover have "all_miss K (caches m) tile ctx \<noteq> None \<Longrightarrow>
              multitier_get_status K m tile ctx = Some (MAPCACHE_CACHE_MISS K)"
  proof -
    assume a: "all_miss K (caches m) tile ctx \<noteq> None"
    with cs first have "ret = MAPCACHE_CACHE_MISS K" and "all_miss K rest t1 c1 \<noteq> None"
      by (auto split: if_splits)
    with status all_miss_no_success [OF codes(1), of rest t1 c1] show ?thesis by simp
  qed
  ultimately show ?thesis by blast
qed

text \<open>
  A run of the amended C2 on the two-tier cache whose second tier is down: tier 0 misses,
  so the failure of tier 1 is passed over and the read returns \<^verbatim>\<open>MAPCACHE_CACHE_MISS\<close>.
\<close>

theorem multitier_get_failure_and_miss_witness:
  "multitier_get_status mapcache_h_values multitier_mem_down tile345 ctx_empty
     = Some (MAPCACHE_CACHE_MISS mapcache_h_values)
   \<and> multitier_get_status mapcache_h_values multitier_mem_down tile345 ctx_empty
       \<noteq> Some (MAPCACHE_FAILURE mapcache_h_values)"
proof -
  let ?K = mapcache_h_values
  have codes: "MAPCACHE_SUCCESS ?K \<noteq> MAPCACHE_CACHE_MISS ?K"
      "MAPCACHE_FAILURE ?K \<noteq> MAPCACHE_CACHE_MISS ?K" "MAPCACHE_FAILURE ?K \<noteq> MAPCACHE_SUCCESS ?K"
    by (simp_all add: mapcache_h_values_def)
  have cs: "caches multitier_mem_down = mem_cache ?K 0 # [down_cache ?K]"
    by (simp add: multitier_mem_down_def)
  have first: "tile_get (mem_cache ?K 0) tile345 ctx_empty
                 = (MAPCACHE_CACHE_MISS ?K, tile345, ctx_empty)"
    by (simp add: multitier_eval)
  have "no_success ?K [down_cache ?K] tile345 ctx_empty"
    by (simp add: multitier_eval)
  with multitier_get_failure_and_miss [OF codes cs first] codes show ?thesis
    by simp
qed

subsection \<open>Waiting for a lock\<close>

lemma wait_rounds_loop:
  "wait_rounds K apr locker lck start_wait n ctx = Some ctxn
   \<Longrightarrow> wait_loop K apr locker lck start_wait ctx = wait_loop K apr locker lck start_wait ctxn"
proof (induction n arbitrary: ctx)
  case 0
  then show ?case by simp
next
  case (Suc n)
  then obtain ctx' where it: "wait_iteration K apr locker lck start_wait ctx = Some (Inr ctx')"
    and rest: "wait_rounds K apr locker lck start_wait n ctx' = Some ctxn"
    by (auto split: option.splits sum.splits)
  have "wait_loop K apr locker lck start_wait ctx = wait_loop K apr locker lck start_wait ctx'"
    using it by (subst wait_loop.simps) simp
  with Suc.IH [OF rest] show ?case by simp
qed

lemma wait_loop_return:
  "wait_iteration K apr locker lck start_wait ctx = Some (Inl r)
   \<Longrightarrow> wait_loop K apr locker lck start_wait ctx = Some r"
  by (subst wait_loop.simps) simp

lemmas locker_eval =
  wait_iteration_def waited_msec_def c_div_def mapcache_unlock_resource_def
  world_apr_def note_event_def example_ping_def busy_locker_def free_locker_def
  failing_locker_def impatient_locker_def ctx_stale_def ctx_stale_at_5_def ctx_short_def
  GC_HAS_ERROR_def set_error_def
  clear_errors_def pop_errors_def push_errors_def ctx_log_line_def
  lock_filename_for_resource_def MAPCACHE_LOCKFILE_PREFIX_def mapcache_h_values_def

text \<open>
  The numbers of a locker with the timeout \<^verbatim>\<open>0.3\<close> and the retry interval \<^verbatim>\<open>0.1\<close>: the product
  of the timeout and 1000 is the double 300, although the double nearest to 0.3 is less
  than 0.3, and the sleep is 100000 microseconds. So a wait of 300 milliseconds is not yet
  beyond the timeout.
\<close>

lemma impatient_numbers:
  "double_mult (double_round 3 10) (double_of_int 1000) = Finite 5277655813324800 (- 44)"
  "double_to_int64 (double_mult (double_round 1 10) (double_of_int 1000000)) = Some 100000"
  "double_round 400 1000 = Finite 7205759403792794 (- 54)"
  by code_simp+

lemma impatient_compare:
  "\<not> double_less (Finite 5277655813324800 (- 44)) (double_of_int 0)"
  "\<not> double_less (Finite 5277655813324800 (- 44)) (double_of_int 100)"
  "\<not> double_less (Finite 5277655813324800 (- 44)) (double_of_int 200)"
  "\<not> double_less (Finite 5277655813324800 (- 44)) (double_of_int 300)"
  "double_less (Finite 5277655813324800 (- 44)) (double_of_int 400)"
  by code_simp+

text \<open>
  C3. Let the acquire raise no error and not acquire the lock, and let the wait have gone
  round \<open>n\<close> times, each time sleeping and pinging and finding the lock still held. The
  time waited at that point is what the code measures: the whole milliseconds between the
  clock after the acquire and the clock now, in 32 bits. If it exceeds the timeout of the
  locker, which the code decides by comparing it as a double with the product of the
  timeout and 1000, the function calls release on the lock, logs the line about the
  possibly stale lock and returns \<^verbatim>\<open>MAPCACHE_FALSE\<close>. If it does not, and the ping after the
  next sleep reports \<^verbatim>\<open>MAPCACHE_LOCK_NOENT\<close>, the function returns \<^verbatim>\<open>MAPCACHE_FALSE\<close> with the
  context as that ping left it: no release and no log line follow.
\<close>

theorem lock_or_wait_returns_false:
  assumes acq: "aquire_lock locker resource lock0 ctx = (rv, lck, ctx1)"
    and noerr: "\<not> GC_HAS_ERROR ctx1"
    and locked: "rv \<noteq> MAPCACHE_LOCK_AQUIRED"
    and rounds: "wait_rounds K apr locker lck (apr_time_now apr (world ctx1)) n ctx1 = Some ctxn"
    and waited: "waited = c_div (apr_time_now apr (world ctxn) - apr_time_now apr (world ctx1)) 1000
                            mod 2 ^ 32"
  shows "(double_less (double_mult (timeout locker) (double_of_int 1000)) (double_of_int waited) \<longrightarrow>
          mapcache_lock_or_wait_for_resource K apr locker resource lock0 ctx =
            Some (MAPCACHE_FALSE K, lck,
                  ctx_log_line MAPCACHE_ERROR
                    ''deleting a possibly stale lock after waiting on it for %g seconds''
                    [ArgG (double_round waited 1000)]
                    (release_lock locker lck ctxn)))
         \<and> (\<not> double_less (double_mult (timeout locker) (double_of_int 1000))
                  (double_of_int waited)
            \<and> double_to_int64 (double_mult (retry_interval locker) (double_of_int 1000000))
                = Some usec
            \<and> fst (ping_lock locker lck (ctxn\<lparr>world := apr_sleep apr usec (world ctxn)\<rparr>))
                = MAPCACHE_LOCK_NOENT \<longrightarrow>
            mapcache_lock_or_wait_for_resource K apr locker resource lock0 ctx =
              Some (MAPCACHE_FALSE K, lck,
                    snd (ping_lock locker lck
                           (ctxn\<lparr>world := apr_sleep apr usec (world ctxn)\<rparr>))))"
proof -
  let ?start = "apr_time_now apr (world ctx1)"
  let ?slept = "ctxn\<lparr>world := apr_sleep apr usec (world ctxn)\<rparr>"
  let ?late = "double_less (double_mult (timeout locker) (double_of_int 1000))
                 (double_of_int waited)"
  have w: "waited_msec apr ?start ctxn = waited"
    using waited by (simp add: waited_msec_def)
  have low: "mapcache_lock_or_wait_for_resource K apr locker resource lock0 ctx =
               (case wait_loop K apr locker lck ?start ctxn of
                  None \<Rightarrow> None
                | Some (r, ctx') \<Rightarrow> Some (r, lck, ctx'))"
    using acq noerr locked wait_rounds_loop [OF rounds]
    by (simp add: mapcache_lock_or_wait_for_resource_def Let_def)
  have "?late \<Longrightarrow>
        wait_iteration K apr locker lck ?start ctxn =
          Some (Inl (MAPCACHE_FALSE K,
               ctx_log_line MAPCACHE_ERROR
                 ''deleting a possibly stale lock after waiting on it for %g seconds''
                 [ArgG (double_round waited 1000)]
                 (release_lock locker lck ctxn)))"
    by (simp add: wait_iteration_def w mapcache_unlock_resource_def Let_def)
  moreover have "\<not> ?late \<Longrightarrow>
        double_to_int64 (double_mult (retry_interval locker) (double_of_int 1000000)) = Some usec \<Longrightarrow>
        fst (ping_lock locker lck ?slept) = MAPCACHE_LOCK_NOENT \<Longrightarrow>
        wait_iteration K apr locker lck ?start ctxn =
          Some (Inl (MAPCACHE_FALSE K, snd (ping_lock locker lck ?slept)))"
  proof -
    assume t: "\<not> ?late"
      and u: "double_to_int64 (double_mult (retry_interval locker) (double_of_int 1000000))
              = Some usec"
      and p: "fst (ping_lock locker lck ?slept) = MAPCACHE_LOCK_NOENT"
    obtain r c where pr: "ping_lock locker lck ?slept = (r, c)"
      by (cases "ping_lock locker lck ?slept")
    with p have "r = MAPCACHE_LOCK_NOENT" by simp
    with t u pr show ?thesis
      by (simp add: wait_iteration_def w Let_def)
  qed
  ultimately show ?thesis
    using low by (auto dest!: wait_loop_return)
qed

text \<open>
  Two runs of C3 with a timeout of 0.3 seconds and a retry interval of 0.1 seconds, both
  entered at second 5. In the first the other worker never finishes: after three rounds
  300 milliseconds have passed, which is not beyond the timeout, so a fourth round follows,
  and at 400 milliseconds the lock is released and the line logged with the double nearest
  to 0.4. In the second the other worker finishes after a quarter of a second: the third
  ping reports that the lock is gone, and nothing is released.
\<close>

theorem lock_or_wait_returns_false_witness:
  "mapcache_lock_or_wait_for_resource mapcache_h_values world_apr (impatient_locker 0) ''r''
     NULL_lock ctx_stale_at_5
   = Some (MAPCACHE_FALSE mapcache_h_values, Lockname ''/tmp/_gc_lockr.lck'',
           \<lparr>ctx_error = None,
            ctx_log = [(MAPCACHE_ERROR,
                        ''deleting a possibly stale lock after waiting on it for %g seconds'',
                        [ArgG (Finite 7205759403792794 (- 54))])],
            world = \<lparr>clock = 5400000, busy_until = 1000000000,
                     events = [Slept 100000, Pinged 0 (Lockname ''/tmp/_gc_lockr.lck''),
                               Slept 100000, Pinged 0 (Lockname ''/tmp/_gc_lockr.lck''),
                               Slept 100000, Pinged 0 (Lockname ''/tmp/_gc_lockr.lck''),
                               Slept 100000, Pinged 0 (Lockname ''/tmp/_gc_lockr.lck''),
                               Released 0 (Lockname ''/tmp/_gc_lockr.lck'')]\<rparr>\<rparr>)
   \<and> mapcache_lock_or_wait_for_resource mapcache_h_values world_apr (impatient_locker 0) ''r''
       NULL_lock ctx_short
     = Some (MAPCACHE_FALSE mapcache_h_values, Lockname ''/tmp/_gc_lockr.lck'',
             \<lparr>ctx_error = None, ctx_log = [],
              world = \<lparr>clock = 5300000, busy_until = 5250000,
                       events = [Slept 100000, Pinged 0 (Lockname ''/tmp/_gc_lockr.lck''),
                                 Slept 100000, Pinged 0 (Lockname ''/tmp/_gc_lockr.lck''),
                                 Slept 100000, Pinged 0 (Lockname ''/tmp/_gc_lockr.lck'')]\<rparr>\<rparr>)"
proof -
  let ?K = mapcache_h_values
  let ?lck = "Lockname ''/tmp/_gc_lockr.lck''"
  let ?L = "impatient_locker 0"
  have acq: "aquire_lock ?L ''r'' NULL_lock c = (MAPCACHE_LOCK_LOCKED, ?lck, c)" for c
    by (simp add: locker_eval)
  have ne: "\<not> GC_HAS_ERROR ctx_stale_at_5" "\<not> GC_HAS_ERROR ctx_short"
    by (simp_all add: locker_eval)
  have num: "timeout ?L = double_round 3 10" "retry_interval ?L = double_round 1 10"
    by (simp_all add: impatient_locker_def)
  have r4: "wait_rounds ?K world_apr ?L ?lck (apr_time_now world_apr (world ctx_stale_at_5)) 4
              ctx_stale_at_5
            = Some \<lparr>ctx_error = None, ctx_log = [],
                    world = \<lparr>clock = 5400000, busy_until = 1000000000,
                             events = [Slept 100000, Pinged 0 ?lck, Slept 100000, Pinged 0 ?lck,
                                       Slept 100000, Pinged 0 ?lck, Slept 100000, Pinged 0 ?lck]\<rparr>\<rparr>"
    by (simp add: locker_eval eval_nat_numeral impatient_numbers impatient_compare)
  have r2: "wait_rounds ?K world_apr ?L ?lck (apr_time_now world_apr (world ctx_short)) 2
              ctx_short
            = Some \<lparr>ctx_error = None, ctx_log = [],
                    world = \<lparr>clock = 5200000, busy_until = 5250000,
                             events = [Slept 100000, Pinged 0 ?lck, Slept 100000, Pinged 0 ?lck]\<rparr>\<rparr>"
    by (simp add: locker_eval eval_nat_numeral impatient_numbers impatient_compare)
  from lock_or_wait_returns_false [OF acq ne(1) _ r4, of 400 100000]
       lock_or_wait_returns_false [OF acq ne(2) _ r2, of 200 100000]
  show ?thesis
    by (simp add: locker_eval impatient_numbers impatient_compare)
qed

text \<open>
  C10, as the claim states it, fails where it calls the returned code distinct. The code
  returned is \<^verbatim>\<open>MAPCACHE_FAILURE\<close>, and the header gives it the value of \<^verbatim>\<open>MAPCACHE_TRUE\<close>: with
  a locker whose acquire raises an error, the function returns the very number that means
  that the caller owns the lock.
\<close>

theorem lock_or_wait_failure_counterexample:
  "GC_HAS_ERROR (snd (snd (aquire_lock (failing_locker 0) ''r'' NULL_lock ctx_stale)))
   \<and> map_option fst (mapcache_lock_or_wait_for_resource mapcache_h_values world_apr
                       (failing_locker 0) ''r'' NULL_lock ctx_stale)
     = Some (MAPCACHE_TRUE mapcache_h_values)"
  by (simp add: mapcache_lock_or_wait_for_resource_def locker_eval)

text \<open>
  C10, amended. If the acquire of the locker leaves an error in the context, the function
  returns the code \<^verbatim>\<open>MAPCACHE_FAILURE\<close> at once: the lock and the context it returns are those
  the acquire left, with the error still set, so nothing has slept, pinged or released. The
  return that means ownership, \<^verbatim>\<open>MAPCACHE_TRUE\<close>, is taken only with a context without error;
  it is the error in the context that tells the two apart, whatever numbers the header
  gives the two codes.
\<close>

theorem lock_or_wait_acquire_error:
  assumes acq: "aquire_lock locker resource lock0 ctx = (rv, lck, ctx1)"
  shows "(GC_HAS_ERROR ctx1 \<longrightarrow>
            mapcache_lock_or_wait_for_resource K apr locker resource lock0 ctx
              = Some (MAPCACHE_FAILURE K, lck, ctx1))
         \<and> (\<not> GC_HAS_ERROR ctx1 \<and> rv = MAPCACHE_LOCK_AQUIRED \<longrightarrow>
              mapcache_lock_or_wait_for_resource K apr locker resource lock0 ctx
                = Some (MAPCACHE_TRUE K, lck, ctx1))"
  using acq by (simp add: mapcache_lock_or_wait_for_resource_def)

text \<open>
  The amended C10 on a locker whose acquire raises an error: the function returns
  \<^verbatim>\<open>MAPCACHE_FAILURE\<close>, the error is in the context, and the world has seen no call.
\<close>

theorem lock_or_wait_acquire_error_witness:
  "mapcache_lock_or_wait_for_resource mapcache_h_values world_apr (failing_locker 0) ''r''
     NULL_lock ctx_stale
   = Some (MAPCACHE_FAILURE mapcache_h_values, NULL_lock,
           \<lparr>ctx_error = Some (500, ''failed to create lockfile''), ctx_log = [],
            world = \<lparr>clock = 0, busy_until = 1000000000, events = []\<rparr>\<rparr>)"
proof -
  have acq: "aquire_lock (failing_locker 0) ''r'' NULL_lock ctx_stale
             = (MAPCACHE_LOCK_NOENT, NULL_lock,
                \<lparr>ctx_error = Some (500, ''failed to create lockfile''), ctx_log = [],
                 world = \<lparr>clock = 0, busy_until = 1000000000, events = []\<rparr>\<rparr>)"
    by (simp add: locker_eval)
  from lock_or_wait_acquire_error [OF acq, of mapcache_h_values world_apr] show ?thesis
    by (simp add: GC_HAS_ERROR_def)
qed

subsection \<open>The fallback locker\<close>

lemma push_clear_error:
  "ctx_error (push_errors e (clear_errors c)) = e"
  by (simp add: push_errors_def clear_errors_def split: option.splits)

lemma fallback_failed_error:
  "fallback_failed ls resource flock ctx = Some (flock', ctx') \<Longrightarrow> ctx_error ctx' = ctx_error ctx"
proof (induction ls arbitrary: flock ctx)
  case Nil
  then show ?case by simp
next
  case (Cons l ls)
  obtain r f c where a: "aquire_lock l resource flock (snd (pop_errors ctx)) = (r, f, c)"
    by (cases "aquire_lock l resource flock (snd (pop_errors ctx))")
  with Cons.prems have
    "fallback_failed ls resource f (push_errors (fst (pop_errors ctx)) (clear_errors c))
       = Some (flock', ctx')"
    by (simp split: if_splits)
  from Cons.IH [OF this] show ?case
    by (simp add: push_clear_error pop_errors_def)
qed

lemma fallback_loop_skips:
  "i + n < length lockers
   \<Longrightarrow> fallback_failed (take n (drop i lockers)) resource flock ctx = Some (flock', ctx')
   \<Longrightarrow> fallback_aquire_loop lockers i resource flock ctx
       = fallback_aquire_loop lockers (i + n) resource flock' ctx'"
proof (induction n arbitrary: i flock ctx)
  case 0
  then show ?case by simp
next
  case (Suc n)
  then have i: "i < length lockers" "int i < int (length lockers) - 1" by simp_all
  then have d: "take (Suc n) (drop i lockers) = lockers ! i # take n (drop (Suc i) lockers)"
    by (simp add: Cons_nth_drop_Suc [symmetric])
  obtain e0 s0 where pop: "pop_errors ctx = (e0, s0)"
    by (cases "pop_errors ctx")
  obtain r f c where a: "aquire_lock (lockers ! i) resource flock s0 = (r, f, c)"
    by (cases "aquire_lock (lockers ! i) resource flock s0")
  with Suc.prems(2) d pop have err: "GC_HAS_ERROR c"
    and rest: "fallback_failed (take n (drop (Suc i) lockers)) resource f
                 (push_errors e0 (clear_errors c)) = Some (flock', ctx')"
    by (auto split: if_splits)
  have "fallback_aquire_loop lockers i resource flock ctx
        = fallback_aquire_loop lockers (Suc i) resource f (push_errors e0 (clear_errors c))"
    using i err
    by (subst fallback_aquire_loop.simps) (simp add: Let_def a pop)
  also have "\<dots> = fallback_aquire_loop lockers (Suc i + n) resource flock' ctx'"
    using Suc.IH [OF _ rest] Suc.prems(1) by simp
  finally show ?case by simp
qed

text \<open>
  C5. Let the children before child \<open>j\<close> all raise an error when they are tried in order,
  and let child \<open>j\<close> be tried next. If it completes without error, the acquire of the
  fallback locker returns its result, with a lock that wraps the lock of child \<open>j\<close>
  together with the position \<open>j\<close>, and release and ping on that lock are the release and
  ping of child \<open>j\<close> on its own lock; the errors of the earlier children are gone, the
  context being the one child \<open>j\<close> left (plus an error that was pending before the call).
  If child \<open>j\<close> raises an error and is the last child, the acquire returns
  \<^verbatim>\<open>MAPCACHE_LOCK_NOENT\<close> and the error left is that of this last child.
\<close>

theorem fallback_aquire_first_success:
  assumes j: "j < length lockers"
    and failed: "fallback_failed (take j lockers) resource NULL_lock ctx = Some (flock, ctx0)"
    and child: "aquire_lock (lockers ! j) resource flock (snd (pop_errors ctx0)) = (rv, tok, ctx1)"
  shows "(\<not> GC_HAS_ERROR ctx1 \<longrightarrow>
            mapcache_locker_fallback_aquire_lock lockers resource lock0 ctx
              = (rv, Fallback_lock (Some j) tok, push_errors (ctx_error ctx) ctx1)
            \<and> (\<forall>c. mapcache_locker_fallback_release_lock lockers (Fallback_lock (Some j) tok) c
                     = Some (release_lock (lockers ! j) tok c))
            \<and> (\<forall>c. mapcache_locker_fallback_ping_lock lockers (Fallback_lock (Some j) tok) c
                     = Some (ping_lock (lockers ! j) tok c)))
         \<and> (GC_HAS_ERROR ctx1 \<and> Suc j = length lockers \<longrightarrow>
              mapcache_locker_fallback_aquire_lock lockers resource lock0 ctx
                = (MAPCACHE_LOCK_NOENT, Fallback_lock None tok, push_errors (ctx_error ctx) ctx1))
         \<and> (ctx_error ctx = None \<longrightarrow> push_errors (ctx_error ctx) ctx1 = ctx1)"
proof -
  have saved: "fst (pop_errors ctx0) = ctx_error ctx"
    using fallback_failed_error [OF failed] by (simp add: pop_errors_def)
  have skip: "mapcache_locker_fallback_aquire_lock lockers resource lock0 ctx
              = fallback_aquire_loop lockers j resource flock ctx0"
    using fallback_loop_skips [of 0 j lockers resource NULL_lock ctx flock ctx0] j failed
    by (simp add: mapcache_locker_fallback_aquire_lock_def)
  obtain s0 where pop: "pop_errors ctx0 = (ctx_error ctx, s0)"
    using saved by (cases "pop_errors ctx0") simp
  with child have child: "aquire_lock (lockers ! j) resource flock s0 = (rv, tok, ctx1)"
    by simp
  have "\<not> GC_HAS_ERROR ctx1 \<Longrightarrow>
        fallback_aquire_loop lockers j resource flock ctx0
          = (rv, Fallback_lock (Some j) tok, push_errors (ctx_error ctx) ctx1)"
    using j by (subst fallback_aquire_loop.simps) (simp add: Let_def pop child)
  moreover have "GC_HAS_ERROR ctx1 \<Longrightarrow> Suc j = length lockers \<Longrightarrow>
        fallback_aquire_loop lockers j resource flock ctx0
          = (MAPCACHE_LOCK_NOENT, Fallback_lock None tok, push_errors (ctx_error ctx) ctx1)"
  proof -
    assume e: "GC_HAS_ERROR ctx1" and l: "Suc j = length lockers"
    then have "\<not> int j < int (length lockers) - 1" by simp
    then have "fallback_aquire_loop lockers j resource flock ctx0
               = fallback_aquire_loop lockers (Suc j) resource tok
                   (push_errors (ctx_error ctx) ctx1)"
      using j e
      by (subst fallback_aquire_loop.simps) (simp add: Let_def pop child)
    also have "\<dots> = (MAPCACHE_LOCK_NOENT, Fallback_lock None tok,
                     push_errors (ctx_error ctx) ctx1)"
      using l by (subst fallback_aquire_loop.simps) simp
    finally show ?thesis .
  qed
  ultimately show ?thesis
    using skip j
    by (simp add: mapcache_locker_fallback_release_lock_def
        mapcache_locker_fallback_ping_lock_def push_errors_def)
qed

text \<open>
  Two runs of C5. Over a failing, a free and a busy locker, child 1 acquires: the lock
  wraps its lock with the position 1, no error is left, and a release reaches child 1.
  Over two failing lockers the acquire returns \<^verbatim>\<open>MAPCACHE_LOCK_NOENT\<close> with the error of
  the second.
\<close>

theorem fallback_aquire_first_success_witness:
  "mapcache_locker_fallback_aquire_lock [failing_locker 0, free_locker 1, busy_locker 2] ''r''
     NULL_lock ctx_stale
   = (MAPCACHE_LOCK_AQUIRED, Fallback_lock (Some 1) (Lockname ''/tmp/_gc_lockr.lck''), ctx_stale)
   \<and> mapcache_locker_fallback_release_lock [failing_locker 0, free_locker 1, busy_locker 2]
       (Fallback_lock (Some 1) (Lockname ''/tmp/_gc_lockr.lck'')) ctx_stale
     = Some (note_event (Released 1 (Lockname ''/tmp/_gc_lockr.lck'')) ctx_stale)
   \<and> mapcache_locker_fallback_aquire_lock [failing_locker 0, failing_locker 1] ''r''
       NULL_lock ctx_stale
     = (MAPCACHE_LOCK_NOENT, Fallback_lock None NULL_lock,
        set_error 500 ''failed to create lockfile'' ctx_stale)"
proof -
  let ?ls = "[failing_locker 0, free_locker 1, busy_locker 2]"
  let ?ls2 = "[failing_locker 0, failing_locker 1]"
  have j: "1 < length ?ls" "1 < length ?ls2" by simp_all
  have pre: "ctx_error ctx_stale = None" by (simp add: ctx_stale_def)
  have pop: "snd (pop_errors ctx_stale) = ctx_stale"
    by (simp add: pop_errors_def ctx_stale_def)
  have failed: "fallback_failed (take 1 ?ls) ''r'' NULL_lock ctx_stale = Some (NULL_lock, ctx_stale)"
    "fallback_failed (take 1 ?ls2) ''r'' NULL_lock ctx_stale = Some (NULL_lock, ctx_stale)"
    by (simp_all add: locker_eval)
  have child: "aquire_lock (?ls ! 1) ''r'' NULL_lock (snd (pop_errors ctx_stale))
               = (MAPCACHE_LOCK_AQUIRED, Lockname ''/tmp/_gc_lockr.lck'', ctx_stale)"
    unfolding pop by (simp add: free_locker_def lock_filename_for_resource_def
        MAPCACHE_LOCKFILE_PREFIX_def)
  have child2: "aquire_lock (?ls2 ! 1) ''r'' NULL_lock (snd (pop_errors ctx_stale))
               = (MAPCACHE_LOCK_NOENT, NULL_lock,
                  set_error 500 ''failed to create lockfile'' ctx_stale)"
    unfolding pop by (simp add: failing_locker_def)
  have ok: "\<not> GC_HAS_ERROR ctx_stale"
    "GC_HAS_ERROR (set_error 500 ''failed to create lockfile'' ctx_stale)"
    by (simp_all add: GC_HAS_ERROR_def set_error_def ctx_stale_def)
  from fallback_aquire_first_success [OF j(1) failed(1) child, of NULL_lock]
       fallback_aquire_first_success [OF j(2) failed(2) child2, of NULL_lock] ok pre
  show ?thesis
    by (simp add: free_locker_def)
qed

subsection \<open>The riak backend\<close>

lemma riak_retry_success:
  "attempt (world ctx) = (Inr v, w)
   \<Longrightarrow> riak_retry env warn attempt client connect_error retries ctx
       = (Inr v, connect_error, ctx\<lparr>world := w\<rparr>)"
  by (subst riak_retry.simps) simp

lemma riak_retry_error_slot:
  "(\<And>r e c. ctx_error (warn r e c) = ctx_error c)
   \<Longrightarrow> ctx_error (snd (snd (riak_retry env warn attempt client connect_error retries ctx)))
       = ctx_error ctx"
proof (induction env warn attempt client connect_error retries ctx rule: riak_retry.induct)
  case (1 env warn attempt client connect_error retries ctx)
  note warn = "1.prems"
  obtain res w where a: "attempt (world ctx) = (res, w)" by (cases "attempt (world ctx)")
  show ?case
  proof (cases res)
    case (Inr v)
    with a show ?thesis by (subst riak_retry.simps) simp
  next
    case (Inl error)
    let ?c = "warn retries error (ctx\<lparr>world := w\<rparr>)"
    let ?loop = "riak_reconnect_loop env client (fst (riack_reconnect env client (world ?c)))
                   retries (snd (riack_reconnect env client (world ?c)))"
    show ?thesis
    proof (cases "fst (snd ?loop) - 1 \<ge> 0")
      case True
      have "ctx_error (snd (snd (riak_retry env warn attempt client (fst ?loop)
                                   (fst (snd ?loop) - 1) (?c\<lparr>world := snd (snd ?loop)\<rparr>))))
            = ctx_error (?c\<lparr>world := snd (snd ?loop)\<rparr>)"
        using True a Inl warn
        by (intro "1.IH") simp_all
      with True a Inl show ?thesis
        by (subst riak_retry.simps) (simp add: Let_def warn)
    next
      case False
      with a Inl show ?thesis
        by (subst riak_retry.simps) (simp add: Let_def warn)
    qed
  qed
qed

lemma riak_warn_error: "ctx_error (riak_warn fmt key cache r e c) = ctx_error c"
  by (simp add: riak_warn_def ctx_log_line_def)

lemma riak_names_no_error:
  "riak_names env cache tile ctx = Inr x \<Longrightarrow> ctx_error ctx = None"
  by (cases "ctx_error ctx")
     (auto simp add: riak_names_def GC_HAS_ERROR_def split: sum.splits if_splits prod.splits)

lemma riak_get_connection_error:
  "riak_get_connection env cache ctx = Inr (pc, ctx0) \<Longrightarrow> ctx_error ctx0 = ctx_error ctx"
  by (auto simp add: riak_get_connection_def split: sum.splits prod.splits)

lemmas riak_eval =
  riak_names_def riak_get_connection_def string_from_template_def riak_bucket_type_def
  riak_retry.simps riak_put_attempt_def riak_put_object_def riak_read_properties_def
  riak_write_properties_def riak_give_back_def riak_release_def riak_detect_blank_def
  riak_raw_image_def riak_content_type_def riak_fill_tile_def blank_content_type_def
  example_riak_def example_blank_png_def empty_png_decode_spec_def riak_cache_blank_def transparent_tile_def tile345_def ctx_riak_empty_def
  ctx_riak_hollow_def ctx_riak_blank_def transparent_sentinel_def uniform_pixels_def
  mapcache_h_values_def GC_HAS_ERROR_def set_error_def riak_warn_def ctx_log_line_def

text \<open>
  C9. Let the lines that open the operation succeed, and let the retry loop of the riack
  get end with an object that has no content or whose first content has no data. Then
  the get of the backend returns \<^verbatim>\<open>MAPCACHE_CACHE_MISS\<close>, which is neither
  \<^verbatim>\<open>MAPCACHE_SUCCESS\<close> nor \<^verbatim>\<open>MAPCACHE_FAILURE\<close>, leaves the tile as it was and sets no error in
  the context; and under the same condition the exists of the backend returns
  \<^verbatim>\<open>MAPCACHE_FALSE\<close>.
\<close>

theorem riak_hollow_object_is_miss:
  assumes names: "riak_names env cache tile ctx = Inr (key, bucket, pbucket_type)"
    and conn: "riak_get_connection env cache ctx = Inr (pc, ctx0)"
    and got: "riak_retry env (riak_warn riak_get_fmt key cache)
                (riack_get_ext env pc bucket key (riak_read_properties cache) pbucket_type)
                pc None 3 ctx0 = (Inr obj, connect_error, ctx1)"
    and hollow: "object_content obj = [] \<or> content_data (hd (object_content obj)) = []"
    and got': "riak_retry env (riak_warn riak_has_tile_fmt key cache)
                 (riack_get_ext env pc bucket key (riak_read_properties cache) pbucket_type)
                 pc None 3 ctx0 = (Inr obj', connect_error', ctx2)"
    and hollow': "object_content obj' = [] \<or> content_data (hd (object_content obj')) = []"
    and codes: "MAPCACHE_CACHE_MISS K \<noteq> MAPCACHE_SUCCESS K"
      "MAPCACHE_CACHE_MISS K \<noteq> MAPCACHE_FAILURE K"
  shows "mapcache_cache_riak_get K env cache tile ctx
           = (MAPCACHE_CACHE_MISS K, tile, riak_release env pc ctx1)
         \<and> fst (mapcache_cache_riak_get K env cache tile ctx)
             \<notin> {MAPCACHE_SUCCESS K, MAPCACHE_FAILURE K}
         \<and> \<not> GC_HAS_ERROR (riak_release env pc ctx1)
         \<and> mapcache_cache_riak_has_tile K env cache tile ctx
             = (MAPCACHE_FALSE K, riak_release env pc ctx2)"
proof -
  have get: "mapcache_cache_riak_get K env cache tile ctx
             = (MAPCACHE_CACHE_MISS K, tile, riak_release env pc ctx1)"
    using hollow
    by (cases "object_content obj") (simp_all add: mapcache_cache_riak_get_def names conn got)
  have has: "mapcache_cache_riak_has_tile K env cache tile ctx
             = (MAPCACHE_FALSE K, riak_release env pc ctx2)"
    using hollow'
    by (cases "object_content obj'")
       (simp_all add: mapcache_cache_riak_has_tile_def names conn got')
  have "ctx_error ctx1 = ctx_error ctx0"
    using riak_retry_error_slot [of "riak_warn riak_get_fmt key cache" env
        "riack_get_ext env pc bucket key (riak_read_properties cache) pbucket_type" pc None 3 ctx0]
      got
    by (simp add: riak_warn_error)
  then have "\<not> GC_HAS_ERROR (riak_release env pc ctx1)"
    using riak_names_no_error [OF names] riak_get_connection_error [OF conn]
    by (simp add: GC_HAS_ERROR_def riak_release_def)
  with get has codes show ?thesis by simp
qed

text \<open>
  C9 on the example server, which holds an object without content data under the key of
  the tile: the get returns \<^verbatim>\<open>MAPCACHE_CACHE_MISS\<close> and the exists \<^verbatim>\<open>MAPCACHE_FALSE\<close>, and the
  context is as before.
\<close>

theorem riak_hollow_object_is_miss_witness:
  "mapcache_cache_riak_get mapcache_h_values (example_riak mapcache_h_values) riak_cache_blank
     tile345 ctx_riak_hollow
   = (MAPCACHE_CACHE_MISS mapcache_h_values, tile345, ctx_riak_hollow)
   \<and> \<not> GC_HAS_ERROR ctx_riak_hollow
   \<and> mapcache_cache_riak_has_tile mapcache_h_values (example_riak mapcache_h_values)
       riak_cache_blank tile345 ctx_riak_hollow
     = (MAPCACHE_FALSE mapcache_h_values, ctx_riak_hollow)"
proof -
  let ?K = mapcache_h_values
  let ?env = "example_riak ?K"
  let ?obj = "\<lparr>object_bucket = ''tiles'', object_key = ''l-3-4-5'',
               object_content = world ctx_riak_hollow (''tiles'', ''l-3-4-5'')\<rparr>"
  have names: "riak_names ?env riak_cache_blank tile345 ctx_riak_hollow
               = Inr (''l-3-4-5'', ''tiles'', None)"
    by (simp add: riak_eval)
  have conn: "riak_get_connection ?env riak_cache_blank ctx_riak_hollow = Inr (0, ctx_riak_hollow)"
    by (simp add: riak_eval)
  have attempt: "riack_get_ext ?env 0 ''tiles'' ''l-3-4-5'' (riak_read_properties riak_cache_blank)
                   None (world ctx_riak_hollow) = (Inr ?obj, world ctx_riak_hollow)"
    by (simp add: example_riak_def)
  have got: "riak_retry ?env warn
               (riack_get_ext ?env 0 ''tiles'' ''l-3-4-5'' (riak_read_properties riak_cache_blank) None)
               0 None 3 ctx_riak_hollow = (Inr ?obj, None, ctx_riak_hollow)" for warn
    by (subst riak_retry.simps) (simp add: attempt)
  have hollow: "object_content ?obj = [] \<or> content_data (hd (object_content ?obj)) = []"
    by (simp add: ctx_riak_hollow_def)
  have codes: "MAPCACHE_CACHE_MISS ?K \<noteq> MAPCACHE_SUCCESS ?K"
    "MAPCACHE_CACHE_MISS ?K \<noteq> MAPCACHE_FAILURE ?K"
    by (simp_all add: mapcache_h_values_def)
  have rel: "riak_release ?env 0 ctx_riak_hollow = ctx_riak_hollow"
    by (simp add: riak_release_def example_riak_def)
  from riak_hollow_object_is_miss [OF names conn got hollow got hollow codes] show ?thesis
    by (simp add: rel)
qed

text \<open>
  C8. Let blank detection be configured, let the raw image of the tile (decoded if need
  be) have one colour, and let the lines that open the set and the put succeed. Then the
  set puts an object whose single content is five bytes, \<^verbatim>\<open>#\<close> followed by the first four
  bytes of the image, with content type \<^verbatim>\<open>image/mapcache-rgba\<close>, and leaves these bytes in the
  tile. And when a later get of a tile with the same key fetches an object whose first
  content carries these bytes and this content type, it returns \<^verbatim>\<open>MAPCACHE_SUCCESS\<close> with the
  buffer that the empty-png decoder makes of the width and height of the grid's tiles and
  of the five bytes, and with \<^verbatim>\<open>nodata\<close> as the decoder leaves it: with a decoder that does
  what the spec says of it, a blank tile of that width and height in the colour of the
  image, and \<^verbatim>\<open>nodata\<close> set.
\<close>

theorem riak_blank_tile_roundtrip:
  assumes names: "riak_names env cache tile ctx = Inr (key, bucket, pbucket_type)"
    and detect: "detect_blank cache \<noteq> 0"
    and raw: "riak_raw_image env tile = Inr img"
    and uniform: "mapcache_image_blank_color env img \<noteq> MAPCACHE_FALSE K"
    and pixel: "4 \<le> length (img_data img)"
    and conn: "riak_get_connection env cache ctx = Inr (pc, ctx0)"
    and put: "riak_retry env (riak_warn riak_set_fmt key cache)
                (riak_put_attempt env pc
                   (riak_put_object bucket key (Some blank_content_type)
                      (CHR ''#'' # take 4 (img_data img)))
                   pbucket_type (riak_write_properties cache))
                pc None 3 ctx0 = (Inr (), connect_error, ctx1)"
    and names2: "riak_names env cache tile2 ctx2 = Inr (key, bucket, pbucket_type)"
    and conn2: "riak_get_connection env cache ctx2 = Inr (pc2, ctx3)"
    and got: "riak_retry env (riak_warn riak_get_fmt key cache)
                (riack_get_ext env pc2 bucket key (riak_read_properties cache) pbucket_type)
                pc2 None 3 ctx3 = (Inr obj, connect_error2, ctx4)"
    and stored: "object_content obj = c0 # others"
      "content_data c0 = CHR ''#'' # take 4 (img_data img)"
      "content_type_value c0 = blank_content_type"
  shows "mapcache_cache_riak_set K env cache tile ctx
           = (tile\<lparr>raw_image := Some img,
                   encoded_data := Some (CHR ''#'' # take 4 (img_data img))\<rparr>,
              riak_give_back env pc connect_error ctx1)
         \<and> length (CHR ''#'' # take 4 (img_data img)) = 5
         \<and> object_content (riak_put_object bucket key (Some blank_content_type)
                              (CHR ''#'' # take 4 (img_data img)))
             = [\<lparr>content_data = CHR ''#'' # take 4 (img_data img),
                 content_type_value = ''image/mapcache-rgba'',
                 last_modified_present = False, last_modified = 0,
                 last_modified_usecs_present = False, last_modified_usecs = 0\<rparr>]
         \<and> fst (mapcache_cache_riak_get K env cache tile2 ctx2) = MAPCACHE_SUCCESS K
         \<and> encoded_data (fst (snd (mapcache_cache_riak_get K env cache tile2 ctx2)))
             = fst (mapcache_empty_png_decode env (tile_sx (grid tile2)) (tile_sy (grid tile2))
                      (CHR ''#'' # take 4 (img_data img)) (nodata tile2))
         \<and> nodata (fst (snd (mapcache_cache_riak_get K env cache tile2 ctx2)))
             = snd (mapcache_empty_png_decode env (tile_sx (grid tile2)) (tile_sy (grid tile2))
                      (CHR ''#'' # take 4 (img_data img)) (nodata tile2))
         \<and> (mapcache_empty_png_decode env = empty_png_decode_spec blank_png \<longrightarrow>
              encoded_data (fst (snd (mapcache_cache_riak_get K env cache tile2 ctx2)))
                = Some (blank_png (tile_sx (grid tile2)) (tile_sy (grid tile2))
                          (take 4 (img_data img)))
              \<and> nodata (fst (snd (mapcache_cache_riak_get K env cache tile2 ctx2))) = 1)"
proof -
  let ?bytes = "CHR ''#'' # take 4 (img_data img)"
  have blank: "riak_detect_blank K env cache tile ctx
               = Inr (tile\<lparr>raw_image := Some img, encoded_data := Some ?bytes\<rparr>,
                      Some blank_content_type, ctx)"
    using detect raw uniform by (simp add: riak_detect_blank_def)
  have ctype: "riak_content_type env (tile\<lparr>raw_image := Some img, encoded_data := Some ?bytes\<rparr>)
                 (Some blank_content_type) = Some blank_content_type"
    by (simp add: riak_content_type_def)
  have set: "mapcache_cache_riak_set K env cache tile ctx
             = (tile\<lparr>raw_image := Some img, encoded_data := Some ?bytes\<rparr>,
                riak_give_back env pc connect_error ctx1)"
    by (simp add: mapcache_cache_riak_set_def names blank ctype conn put)
  have len: "length ?bytes = 5" using pixel by simp
  have get: "mapcache_cache_riak_get K env cache tile2 ctx2
             = (MAPCACHE_SUCCESS K, riak_fill_tile env c0 tile2, riak_release env pc2 ctx4)"
    by (simp add: mapcache_cache_riak_get_def names2 conn2 got stored)
  obtain buf nd where dec:
    "mapcache_empty_png_decode env (tile_sx (grid tile2)) (tile_sy (grid tile2)) ?bytes
       (nodata tile2) = (buf, nd)"
    by (cases "mapcache_empty_png_decode env (tile_sx (grid tile2)) (tile_sy (grid tile2)) ?bytes
                 (nodata tile2)")
  have fill: "encoded_data (riak_fill_tile env c0 tile2) = buf"
    "nodata (riak_fill_tile env c0 tile2) = nd"
    using len dec by (simp_all add: riak_fill_tile_def stored Let_def)
  have spec: "buf = Some (blank_png (tile_sx (grid tile2)) (tile_sy (grid tile2))
                            (take 4 (img_data img))) \<and> nd = 1"
    if "mapcache_empty_png_decode env = empty_png_decode_spec blank_png"
    using dec pixel unfolding that by (simp add: empty_png_decode_spec_def)
  from set len get fill dec spec show ?thesis
    by (simp add: riak_put_object_def blank_content_type_def)
qed

text \<open>
  C8 on the example server, empty at first. The set of the tile with the transparent raw
  image leaves the five bytes \<^verbatim>\<open>#\<close>, 0, 0, 0, 0 with content type \<^verbatim>\<open>image/mapcache-rgba\<close> under
  the key; the get of the tile at the same position then returns \<^verbatim>\<open>MAPCACHE_SUCCESS\<close> with
  the stand-in for a blank tile of 256 by 256 in the transparent colour, and with
  \<^verbatim>\<open>nodata\<close> set.
\<close>

theorem riak_blank_tile_roundtrip_witness:
  "mapcache_cache_riak_set mapcache_h_values (example_riak mapcache_h_values) riak_cache_blank
     transparent_tile ctx_riak_empty
   = (transparent_tile\<lparr>encoded_data := Some transparent_sentinel\<rparr>, ctx_riak_blank)
   \<and> length transparent_sentinel = 5
   \<and> map content_data (world ctx_riak_blank (''tiles'', ''l-3-4-5'')) = [transparent_sentinel]
   \<and> map content_type_value (world ctx_riak_blank (''tiles'', ''l-3-4-5''))
       = [''image/mapcache-rgba'']
   \<and> fst (mapcache_cache_riak_get mapcache_h_values (example_riak mapcache_h_values)
            riak_cache_blank tile345 ctx_riak_blank) = MAPCACHE_SUCCESS mapcache_h_values
   \<and> encoded_data (fst (snd (mapcache_cache_riak_get mapcache_h_values
                                (example_riak mapcache_h_values) riak_cache_blank tile345
                                ctx_riak_blank)))
       = Some (example_blank_png 256 256 [CHR 0x00, CHR 0x00, CHR 0x00, CHR 0x00])
   \<and> nodata (fst (snd (mapcache_cache_riak_get mapcache_h_values
                          (example_riak mapcache_h_values) riak_cache_blank tile345
                          ctx_riak_blank))) = 1"
proof -
  let ?K = mapcache_h_values
  let ?env = "example_riak ?K"
  let ?img = "\<lparr>img_w = 2, img_h = 1,
               img_data = [CHR 0x00, CHR 0x00, CHR 0x00, CHR 0x00,
                           CHR 0x00, CHR 0x00, CHR 0x00, CHR 0x00]\<rparr>"
  let ?c0 = "\<lparr>content_data = transparent_sentinel, content_type_value = blank_content_type,
              last_modified_present = False, last_modified = 0,
              last_modified_usecs_present = False, last_modified_usecs = 0\<rparr>"
  let ?obj = "\<lparr>object_bucket = ''tiles'', object_key = ''l-3-4-5'', object_content = [?c0]\<rparr>"
  have bytes: "CHR ''#'' # take 4 (img_data ?img) = transparent_sentinel"
    by (simp add: transparent_sentinel_def)
  have names: "riak_names ?env riak_cache_blank transparent_tile ctx_riak_empty
               = Inr (''l-3-4-5'', ''tiles'', None)"
    "riak_names ?env riak_cache_blank tile345 ctx_riak_blank = Inr (''l-3-4-5'', ''tiles'', None)"
    by (simp_all add: riak_eval)
  have detect: "detect_blank riak_cache_blank \<noteq> 0"
    by (simp add: riak_cache_blank_def)
  have raw: "riak_raw_image ?env transparent_tile = Inr ?img"
    by (simp add: riak_raw_image_def transparent_tile_def)
  have uniform: "mapcache_image_blank_color ?env ?img \<noteq> MAPCACHE_FALSE ?K"
    by (simp add: example_riak_def uniform_pixels_def mapcache_h_values_def)
  have pixel: "4 \<le> length (img_data ?img)" by simp
  have conn: "riak_get_connection ?env riak_cache_blank ctx_riak_empty = Inr (0, ctx_riak_empty)"
    "riak_get_connection ?env riak_cache_blank ctx_riak_blank = Inr (0, ctx_riak_blank)"
    by (simp_all add: riak_eval)
  have put: "riak_retry ?env (riak_warn riak_set_fmt ''l-3-4-5'' riak_cache_blank)
               (riak_put_attempt ?env 0
                  (riak_put_object ''tiles'' ''l-3-4-5'' (Some blank_content_type)
                     (CHR ''#'' # take 4 (img_data ?img)))
                  None (riak_write_properties riak_cache_blank))
               0 None 3 ctx_riak_empty = (Inr (), None, ctx_riak_blank)"
    by (subst riak_retry.simps)
       (simp add: riak_put_attempt_def riak_put_object_def example_riak_def ctx_riak_empty_def
          ctx_riak_blank_def transparent_sentinel_def)
  have got: "riak_retry ?env (riak_warn riak_get_fmt ''l-3-4-5'' riak_cache_blank)
               (riack_get_ext ?env 0 ''tiles'' ''l-3-4-5'' (riak_read_properties riak_cache_blank)
                  None)
               0 None 3 ctx_riak_blank = (Inr ?obj, None, ctx_riak_blank)"
    by (subst riak_retry.simps) (simp add: example_riak_def ctx_riak_blank_def)
  have stored: "object_content ?obj = ?c0 # []"
    "content_data ?c0 = CHR ''#'' # take 4 (img_data ?img)"
    "content_type_value ?c0 = blank_content_type"
    by (simp_all add: transparent_sentinel_def)
  have gave_back: "riak_give_back ?env 0 None ctx_riak_blank = ctx_riak_blank"
    by (simp add: riak_give_back_def example_riak_def)
  have tile: "transparent_tile\<lparr>raw_image := Some ?img\<rparr> = transparent_tile"
    by (simp add: transparent_tile_def)
  have dec: "mapcache_empty_png_decode ?env = empty_png_decode_spec example_blank_png"
    by (simp add: example_riak_def)
  have grid: "tile_sx (grid tile345) = 256" "tile_sy (grid tile345) = 256"
    by (simp_all add: tile345_def)
  have srv: "world ctx_riak_blank (''tiles'', ''l-3-4-5'') = [?c0]"
    by (simp add: ctx_riak_blank_def)
  from riak_blank_tile_roundtrip [OF names(1) detect raw uniform pixel conn(1) put names(2)
      conn(2) got stored, of example_blank_png] dec
  show ?thesis
    unfolding bytes gave_back srv grid
    by (simp add: tile blank_content_type_def transparent_sentinel_def
        empty_png_decode_spec_def)
qed

end
